theory Spec2Isabelle
  imports Main "HOL-Library.Signed_Division" "HOL-Library.Sublist" "HOL-Library.AList"
begin

section \<open>Status errors\<close>

text \<open>
  Every handler returns either a response or \<open>status.Error(code, msg)\<close>. The three gRPC
  codes the two files use are the constructors of \<open>codes\<close>; a handler result is
  \<open>status + response\<close>, with \<open>Inl\<close> the error. \<open>Panic\<close> is a Go run-time panic
  that leaves the handler (the one place where the sources can panic is a string slice in
  \<open>getOrCreateUser\<close>).
\<close>

datatype codes = InvalidArgument | AlreadyExists | Internal

datatype status = Status codes string | Panic

type_synonym strmap = "(string \<times> string) list"

section \<open>Controller service (package rbd)\<close>

subsection \<open>Data\<close>

text \<open>
  \<open>rbdVolume\<close>: the fields of the struct that the controller reads or writes.
  \<open>VolSize\<close> is an int64; the controller only compares it and divides it by 1024, so it is
  an \<open>int\<close> here and the division is Go's, truncating towards zero (\<open>sdiv\<close>).
\<close>

record rbdVolume =
  VolName :: string
  VolID :: string
  Pool :: string
  VolSize :: int

datatype accessMode_Mode =
    UNKNOWN
  | SINGLE_NODE_WRITER
  | SINGLE_NODE_READER_ONLY
  | MULTI_NODE_READER_ONLY
  | MULTI_NODE_SINGLE_WRITER
  | MULTI_NODE_MULTI_WRITER

record accessMode =
  Mode :: accessMode_Mode

record volumeCapability =
  AccessMode :: "accessMode option"

record capacityRange =
  RequiredBytes :: int
  LimitBytes :: int

text \<open>
  Pointers that may be nil are options: a nil \<open>CapacityRange\<close>, a nil capability slice, a
  nil element of the slice, a nil \<open>AccessMode\<close>.
\<close>

record createVolumeRequest =
  Name :: string
  VolumeCapabilities :: "volumeCapability option list option"
  CapacityRange :: "capacityRange option"
  Parameters :: strmap
  ControllerCreateSecrets :: strmap

record volume =
  Id :: string
  CapacityBytes :: int
  Attributes :: strmap

record deleteVolumeRequest =
  dv_VolumeId :: string
  ControllerDeleteSecrets :: strmap

record validateVolumeCapabilitiesRequest =
  vv_VolumeCapabilities :: "volumeCapability option list option"

record validateVolumeCapabilitiesResponse =
  Supported :: bool
  Message :: string

text \<open>The generated getters are nil-safe: on nil they return the zero value.\<close>

definition GetAccessMode :: "volumeCapability option \<Rightarrow> accessMode option" where
  "GetAccessMode c = (case c of None \<Rightarrow> None | Some v \<Rightarrow> AccessMode v)"

definition GetMode :: "accessMode option \<Rightarrow> accessMode_Mode" where
  "GetMode a = (case a of None \<Rightarrow> UNKNOWN | Some m \<Rightarrow> Mode m)"

definition GetRequiredBytes :: "capacityRange option \<Rightarrow> int" where
  "GetRequiredBytes r = (case r of None \<Rightarrow> 0 | Some c \<Rightarrow> RequiredBytes c)"

definition oneGB :: int where
  "oneGB = 1073741824"

subsection \<open>Collaborators and effects\<close>

text \<open>
  The backend commands, the metadata files, the option parser, the request validation of
  the driver and the UUID generator are external to the controller: each call's outcomes
  are the fields of \<open>ctrl_env\<close> (an error is \<open>Some msg\<close> or \<open>Inl msg\<close>).
  \<open>controllerFolder\<close> is the value of \<open>path.Join(PluginFolder, "controller")\<close>, and the
  two \<open>sprint\<close> fields are \<open>fmt.Sprintf("%v", req)\<close>.
\<close>

record ctrl_env =
  ValidateControllerServiceRequest :: "string option"
  sprintCreateReq :: "createVolumeRequest \<Rightarrow> string"
  sprintDeleteReq :: "deleteVolumeRequest \<Rightarrow> string"
  getRBDVolumeOptions :: "strmap \<Rightarrow> string + rbdVolume"
  newUUID :: string
  rbdStatus :: "rbdVolume \<Rightarrow> strmap \<Rightarrow> bool"
  createRBDImage :: "rbdVolume \<Rightarrow> int \<Rightarrow> strmap \<Rightarrow> string option"
  controllerFolder :: string
  persistVolInfo :: "string \<Rightarrow> string \<Rightarrow> rbdVolume \<Rightarrow> string option"
  loadVolInfo :: "string \<Rightarrow> string \<Rightarrow> string + rbdVolume"
  deleteRBDImage :: "rbdVolume \<Rightarrow> strmap \<Rightarrow> string option"
  deleteVolInfo :: "string \<Rightarrow> string \<Rightarrow> string option"

text \<open>
  What a handler does to the world, in program order: each call of a collaborator with its
  arguments, and each write to the package-level map \<open>rbdVolumes\<close>.
\<close>

datatype ctrl_effect =
    RbdStatus rbdVolume strmap
  | CreateRBDImage rbdVolume int strmap
  | PersistVolInfo string string rbdVolume
  | IndexStore string rbdVolume
  | LoadVolInfo string string
  | DeleteRBDImage rbdVolume strmap
  | DeleteVolInfo string string
  | IndexDelete string

text \<open>
  The controller's state: the in-memory index \<open>rbdVolumes\<close> (a Go map from volume ID to
  \<open>rbdVolume\<close>, here an association list with one pair per key) and the effects so far,
  oldest first.
\<close>

record ctrl_state =
  rbdVolumes :: "(string \<times> rbdVolume) list"
  effects :: "ctrl_effect list"

definition emit :: "ctrl_effect \<Rightarrow> ctrl_state \<Rightarrow> ctrl_state" where
  "emit e s = s\<lparr>effects := effects s @ [e]\<rparr>"

text \<open>
  Modelled from the spec: \<open>getRBDVolumeByName\<close> is called by \<open>CreateVolume\<close> and is not
  among the source files. The specification says that the controller looks an existing
  volume up by name in the in-memory index: the first entry of \<open>rbdVolumes\<close> whose
  \<open>VolName\<close> is the name, an error (here \<open>None\<close>) when there is none. A Go map has no
  fixed order; the order of the list is the order of one scan. \<open>CreateVolume\<close> keeps the
  names of the index distinct, and then every order finds the same record (lemmas
  \<open>CreateVolume_names_distinct\<close> and \<open>getRBDVolumeByName_distinct\<close> below).
\<close>

definition getRBDVolumeByName :: "(string \<times> rbdVolume) list \<Rightarrow> string \<Rightarrow> rbdVolume option" where
  "getRBDVolumeByName vols volName =
     map_option snd (find (\<lambda>kv. VolName (snd kv) = volName) vols)"

subsection \<open>CreateVolume\<close>

text \<open>
  Lines 110-121: the record is handed to \<open>persistVolInfo\<close>, whose error is only logged
  as a warning; then the record enters the index and the response is built.
\<close>

definition storeVolume ::
  "ctrl_env \<Rightarrow> createVolumeRequest \<Rightarrow> rbdVolume \<Rightarrow> string \<Rightarrow> int \<Rightarrow> ctrl_state
     \<Rightarrow> (status + volume) \<times> ctrl_state" where
  "storeVolume env req rbdVol volumeID volSizeBytes s =
     (let s1 = emit (PersistVolInfo volumeID (controllerFolder env) rbdVol) s;
          s2 = (case persistVolInfo env volumeID (controllerFolder env) rbdVol of
                  Some err \<Rightarrow> s1
                | None \<Rightarrow> s1);
          s3 = emit (IndexStore volumeID rbdVol)
                 (s2\<lparr>rbdVolumes := AList.update volumeID rbdVol (rbdVolumes s2)\<rparr>)
      in (Inr \<lparr>Id = volumeID, CapacityBytes = volSizeBytes, Attributes = Parameters req\<rparr>, s3))"

text \<open>
  Lines 76-109: options, names, size, the probe for an image and its creation. The
  conversions \<open>int64(...)\<close> and \<open>int(...)\<close> keep the value (Go's \<open>int\<close> has 64 bits on
  the platforms of the plugin), and \<open>/\<close> on integers truncates towards zero.
\<close>

definition provisionVolume ::
  "ctrl_env \<Rightarrow> createVolumeRequest \<Rightarrow> ctrl_state \<Rightarrow> (status + volume) \<times> ctrl_state" where
  "provisionVolume env req s =
     (case getRBDVolumeOptions env (Parameters req) of
        Inl err \<Rightarrow> (Inl (Status InvalidArgument err), s)
      | Inr opts \<Rightarrow>
          (let uniqueID = newUUID env;
               volName = (if length (Name req) = 0
                          then Pool opts @ ''-dynamic-pvc-'' @ uniqueID else Name req);
               volumeID = ''csi-rbd-'' @ uniqueID;
               volSizeBytes = (case CapacityRange req of
                                 None \<Rightarrow> oneGB
                               | Some r \<Rightarrow> RequiredBytes r);
               rbdVol = opts\<lparr>VolName := volName, VolID := volumeID, VolSize := volSizeBytes\<rparr>;
               volSizeGB = volSizeBytes sdiv 1024 sdiv 1024 sdiv 1024;
               secrets = ControllerCreateSecrets req;
               s1 = emit (RbdStatus rbdVol secrets) s
           in if \<not> rbdStatus env rbdVol secrets
              then (let s2 = emit (CreateRBDImage rbdVol volSizeGB secrets) s1
                    in case createRBDImage env rbdVol volSizeGB secrets of
                         Some err \<Rightarrow> (Inl (Status Internal err), s2)
                       | None \<Rightarrow> storeVolume env req rbdVol volumeID volSizeBytes s2)
              else storeVolume env req rbdVol volumeID volSizeBytes s1))"

definition CreateVolume ::
  "ctrl_env \<Rightarrow> createVolumeRequest \<Rightarrow> ctrl_state \<Rightarrow> (status + volume) \<times> ctrl_state" where
  "CreateVolume env req s =
     (case ValidateControllerServiceRequest env of
        Some err \<Rightarrow>
          (Inl (Status InvalidArgument (''invalid create volume req: '' @ sprintCreateReq env req)), s)
      | None \<Rightarrow>
          if length (Name req) = 0
          then (Inl (Status InvalidArgument ''Volume Name cannot be empty''), s)
          else if VolumeCapabilities req = None
          then (Inl (Status InvalidArgument ''Volume Capabilities cannot be empty''), s)
          else (case getRBDVolumeByName (rbdVolumes s) (Name req) of
                  Some exVol \<Rightarrow>
                    if VolSize exVol \<ge> GetRequiredBytes (CapacityRange req)
                    then (Inr \<lparr>Id = VolID exVol, CapacityBytes = VolSize exVol,
                               Attributes = Parameters req\<rparr>, s)
                    else (Inl (Status AlreadyExists
                            (''Volume with the same name: '' @ Name req
                               @ '' but with different size already exist'')), s)
                | None \<Rightarrow> provisionVolume env req s))"

subsection \<open>DeleteVolume\<close>

definition DeleteVolume ::
  "ctrl_env \<Rightarrow> deleteVolumeRequest \<Rightarrow> ctrl_state \<Rightarrow> (status + unit) \<times> ctrl_state" where
  "DeleteVolume env req s =
     (case ValidateControllerServiceRequest env of
        Some err \<Rightarrow>
          (Inl (Status InvalidArgument (''invalid delete volume req: '' @ sprintDeleteReq env req)), s)
      | None \<Rightarrow>
          (let volumeID = dv_VolumeId req;
               s1 = emit (LoadVolInfo volumeID (controllerFolder env)) s
           in case loadVolInfo env volumeID (controllerFolder env) of
                Inl err \<Rightarrow> (Inl (Status Internal err), s1)
              | Inr rbdVol \<Rightarrow>
                  (let s2 = emit (DeleteRBDImage rbdVol (ControllerDeleteSecrets req)) s1
                   in case deleteRBDImage env rbdVol (ControllerDeleteSecrets req) of
                        Some err \<Rightarrow> (Inl (Status Internal err), s2)
                      | None \<Rightarrow>
                          (let s3 = emit (DeleteVolInfo volumeID (controllerFolder env)) s2
                           in case deleteVolInfo env volumeID (controllerFolder env) of
                                Some err \<Rightarrow> (Inl (Status Internal err), s3)
                              | None \<Rightarrow>
                                  (Inr (),
                                   emit (IndexDelete volumeID)
                                     (s3\<lparr>rbdVolumes := AList.delete volumeID (rbdVolumes s3)\<rparr>))))))"

subsection \<open>ValidateVolumeCapabilities\<close>

text \<open>The loop over the capabilities returns at the first mode that is not single-node-writer.\<close>

fun validateCapabilities :: "volumeCapability option list \<Rightarrow> validateVolumeCapabilitiesResponse" where
  "validateCapabilities [] = \<lparr>Supported = True, Message = ''''\<rparr>"
| "validateCapabilities (cap # caps) =
     (if GetMode (GetAccessMode cap) \<noteq> SINGLE_NODE_WRITER
      then \<lparr>Supported = False, Message = ''''\<rparr>
      else validateCapabilities caps)"

text \<open>Ranging over a nil slice runs the loop body no times.\<close>

definition capabilityList :: "validateVolumeCapabilitiesRequest \<Rightarrow> volumeCapability option list" where
  "capabilityList req = (case vv_VolumeCapabilities req of None \<Rightarrow> [] | Some caps \<Rightarrow> caps)"

definition ValidateVolumeCapabilities ::
  "validateVolumeCapabilitiesRequest \<Rightarrow> status + validateVolumeCapabilitiesResponse" where
  "ValidateVolumeCapabilities req = Inr (validateCapabilities (capabilityList req))"

section \<open>Node service (package cephfs)\<close>

subsection \<open>Data\<close>

text \<open>
  The fields of \<open>volumeOptions\<close>, \<open>credentials\<close>, \<open>nodeCacheEntry\<close> and of the entity
  returned by \<open>createCephUser\<close> that the node server reads or writes. Volume IDs and paths
  are strings.
\<close>

record volumeOptions =
  Monitors :: string
  RootPath :: string
  ProvisionVolume :: bool

record credentials =
  cr_id :: string
  cr_key :: string

record nodeCacheEntry =
  volOptions :: volumeOptions
  cephAdminID :: string

record cephEntity =
  Entity :: string
  Key :: string

record cephConfigData =
  cc_Monitors :: string
  cc_VolumeID :: string

record nodeStageVolumeRequest =
  ns_VolumeId :: string
  ns_StagingTargetPath :: string
  VolumeAttributes :: strmap
  NodeStageSecrets :: strmap

record nodeUnstageVolumeRequest =
  nu_VolumeId :: string
  nu_StagingTargetPath :: string

text \<open>A Go \<open>error\<close> returned by \<open>getOrCreateUser\<close>, or the panic of its string slice.\<close>

datatype goerr = Err string | SlicePanic

subsection \<open>Collaborators and effects\<close>

text \<open>
  The request validators, the option parser, the credential helpers, the Ceph user
  commands, the file system and the mounter are external to the node server: each call's
  outcomes are the fields of \<open>node_env\<close>. \<open>statMountPoint\<close> is the error of the
  mount-point probe, \<open>cacheMissError\<close> the error of a pop that finds no entry, and
  \<open>cephEntityClientPrefix\<close> the constant of that name.
\<close>

record node_env =
  validateNodeStageVolumeRequest :: "nodeStageVolumeRequest \<Rightarrow> string option"
  newVolumeOptions :: "strmap \<Rightarrow> string + volumeOptions"
  createMountPoint :: "string \<Rightarrow> string option"
  writeToFile :: "cephConfigData \<Rightarrow> string option"
  statMountPoint :: "string \<Rightarrow> string option"
  getAdminCredentials :: "strmap \<Rightarrow> string + credentials"
  getUserCredentials :: "strmap \<Rightarrow> string + credentials"
  storeCephCredentials :: "string \<Rightarrow> credentials \<Rightarrow> string option"
  createCephUser :: "volumeOptions \<Rightarrow> credentials \<Rightarrow> string \<Rightarrow> string + cephEntity"
  cephEntityClientPrefix :: string
  getVolumeRootPath_ceph :: "string \<Rightarrow> string"
  mount :: "string \<Rightarrow> credentials \<Rightarrow> volumeOptions \<Rightarrow> string \<Rightarrow> string option"
  validateNodeUnstageVolumeRequest :: "nodeUnstageVolumeRequest \<Rightarrow> string option"
  unmountVolume :: "string \<Rightarrow> string option"
  cacheMissError :: "string \<Rightarrow> string"
  deleteCephUser :: "credentials \<Rightarrow> string \<Rightarrow> string option"

datatype node_effect =
    CreateMountPoint string
  | WriteToFile cephConfigData
  | StoreCephCredentials string credentials
  | CacheInsert string nodeCacheEntry
  | CreateCephUser volumeOptions credentials string
  | Mount string credentials volumeOptions string
  | UnmountVolume string
  | OsRemove string
  | CachePop string
  | DeleteCephUser credentials string

text \<open>
  The node's state: the package-level \<open>nodeCache\<close> (volume ID to entry), the mount table
  of the node (path to the volume mounted there) and the effects so far, oldest first.
\<close>

record node_state =
  nodeCache :: "string \<rightharpoonup> nodeCacheEntry"
  mounts :: "string \<rightharpoonup> string"
  node_effects :: "node_effect list"

definition nemit :: "node_effect \<Rightarrow> node_state \<Rightarrow> node_state" where
  "nemit e s = s\<lparr>node_effects := node_effects s @ [e]\<rparr>"

text \<open>
  Modelled from the spec: \<open>nodeCache.insert\<close> and \<open>nodeCache.pop\<close> are called by the node
  server and are not among the source files. The specification describes the cache as a
  map from volume ID to entry: an insert stores the entry under the volume ID, a pop
  removes and returns the entry, and the absence of an entry is an error.
\<close>

definition cacheInsert :: "string \<Rightarrow> nodeCacheEntry \<Rightarrow> node_state \<Rightarrow> node_state" where
  "cacheInsert volId ent s =
     nemit (CacheInsert volId ent) (s\<lparr>nodeCache := (nodeCache s)(volId \<mapsto> ent)\<rparr>)"

definition cachePop ::
  "node_env \<Rightarrow> string \<Rightarrow> node_state \<Rightarrow> (string + nodeCacheEntry) \<times> node_state" where
  "cachePop env volId s =
     (case nodeCache s volId of
        None \<Rightarrow> (Inl (cacheMissError env volId), nemit (CachePop volId) s)
      | Some ent \<Rightarrow>
          (Inr ent, nemit (CachePop volId) (s\<lparr>nodeCache := (nodeCache s)(volId := None)\<rparr>)))"

text \<open>
  Modelled from the spec: the Mounter capability (\<open>isMountPoint\<close>, \<open>mount\<close>, \<open>unmount\<close>) is
  an external collaborator that is not among the source files. The mount table stands for
  the mounts of the node: the probe reads it unless the stat fails, a mount that succeeds
  adds the path, an unmount that succeeds removes it.
\<close>

definition isMountPoint :: "node_env \<Rightarrow> string \<Rightarrow> node_state \<Rightarrow> string + bool" where
  "isMountPoint env p s =
     (case statMountPoint env p of Some err \<Rightarrow> Inl err | None \<Rightarrow> Inr (mounts s p \<noteq> None))"

definition mounted :: "string \<Rightarrow> string \<Rightarrow> node_state \<Rightarrow> node_state" where
  "mounted p volId s = s\<lparr>mounts := (mounts s)(p \<mapsto> volId)\<rparr>"

definition unmounted :: "string \<Rightarrow> node_state \<Rightarrow> node_state" where
  "unmounted p s = s\<lparr>mounts := (mounts s)(p := None)\<rparr>"

subsection \<open>getOrCreateUser\<close>

text \<open>Lines 81-85: the user's credentials are stored and returned.\<close>

definition storeUserCredentials ::
  "node_env \<Rightarrow> string \<Rightarrow> credentials \<Rightarrow> volumeOptions \<Rightarrow> node_state
     \<Rightarrow> (goerr + credentials \<times> volumeOptions) \<times> node_state" where
  "storeUserCredentials env volId userCr opts s =
     (let s1 = nemit (StoreCephCredentials volId userCr) s
      in case storeCephCredentials env volId userCr of
           Some err \<Rightarrow> (Inl (Err err), s1)
         | None \<Rightarrow> (Inr (userCr, opts), s1))"

text \<open>
  \<open>volOptions\<close> is a pointer that the cache entry shares: the assignment to
  \<open>volOptions.RootPath\<close> after the insert is seen by the caller (the options are returned
  with the credentials) and through the entry (the entry is rewritten). The slice
  \<open>ent.Entity[len(cephEntityClientPrefix):]\<close> panics when the entity is shorter than the
  prefix.
\<close>

definition getOrCreateUser ::
  "node_env \<Rightarrow> volumeOptions \<Rightarrow> string \<Rightarrow> nodeStageVolumeRequest \<Rightarrow> node_state
     \<Rightarrow> (goerr + credentials \<times> volumeOptions) \<times> node_state" where
  "getOrCreateUser env opts volId req s =
     (if ProvisionVolume opts
      then (case getAdminCredentials env (NodeStageSecrets req) of
              Inl err \<Rightarrow> (Inl (Err err), s)
            | Inr adminCr \<Rightarrow>
                (let s1 = nemit (StoreCephCredentials volId adminCr) s
                 in case storeCephCredentials env volId adminCr of
                      Some err \<Rightarrow> (Inl (Err err), s1)
                    | None \<Rightarrow>
                        (let s2 = cacheInsert volId
                                    \<lparr>volOptions = opts, cephAdminID = cr_id adminCr\<rparr> s1;
                             s3 = nemit (CreateCephUser opts adminCr volId) s2
                         in case createCephUser env opts adminCr volId of
                              Inl err \<Rightarrow> (Inl (Err err), s3)
                            | Inr ent \<Rightarrow>
                                if length (Entity ent) < length (cephEntityClientPrefix env)
                                then (Inl SlicePanic, s3)
                                else (let userCr =
                                            \<lparr>cr_id = drop (length (cephEntityClientPrefix env)) (Entity ent),
                                             cr_key = Key ent\<rparr>;
                                          opts' = opts\<lparr>RootPath := getVolumeRootPath_ceph env volId\<rparr>;
                                          s4 = s3\<lparr>nodeCache := (nodeCache s3)(volId \<mapsto>
                                                  \<lparr>volOptions = opts', cephAdminID = cr_id adminCr\<rparr>)\<rparr>
                                      in storeUserCredentials env volId userCr opts' s4))))
      else (case getUserCredentials env (NodeStageSecrets req) of
              Inl err \<Rightarrow> (Inl (Err err), s)
            | Inr userCr \<Rightarrow>
                (let s1 = cacheInsert volId \<lparr>volOptions = opts, cephAdminID = ''''\<rparr> s
                 in storeUserCredentials env volId userCr opts s1)))"

subsection \<open>NodeStageVolume\<close>

text \<open>Lines 129-147: the credentials, then the mount.\<close>

definition stageMount ::
  "node_env \<Rightarrow> nodeStageVolumeRequest \<Rightarrow> volumeOptions \<Rightarrow> node_state
     \<Rightarrow> (status + unit) \<times> node_state" where
  "stageMount env req opts s =
     (let stagingTargetPath = ns_StagingTargetPath req;
          volId = ns_VolumeId req
      in case getOrCreateUser env opts volId req s of
           (Inl (Err err), s1) \<Rightarrow> (Inl (Status Internal err), s1)
         | (Inl SlicePanic, s1) \<Rightarrow> (Inl Panic, s1)
         | (Inr (cr, opts'), s1) \<Rightarrow>
             (let s2 = nemit (Mount stagingTargetPath cr opts' volId) s1
              in case mount env stagingTargetPath cr opts' volId of
                   Some err \<Rightarrow> (Inl (Status Internal err), s2)
                 | None \<Rightarrow> (Inr (), mounted stagingTargetPath volId s2)))"

definition NodeStageVolume ::
  "node_env \<Rightarrow> nodeStageVolumeRequest \<Rightarrow> node_state \<Rightarrow> (status + unit) \<times> node_state" where
  "NodeStageVolume env req s =
     (case validateNodeStageVolumeRequest env req of
        Some err \<Rightarrow> (Inl (Status InvalidArgument err), s)
      | None \<Rightarrow>
          (let stagingTargetPath = ns_StagingTargetPath req;
               volId = ns_VolumeId req
           in case newVolumeOptions env (VolumeAttributes req) of
                Inl err \<Rightarrow> (Inl (Status InvalidArgument err), s)
              | Inr opts \<Rightarrow>
                  (let s1 = nemit (CreateMountPoint stagingTargetPath) s
                   in case createMountPoint env stagingTargetPath of
                        Some err \<Rightarrow> (Inl (Status Internal err), s1)
                      | None \<Rightarrow>
                          (let cephConf = \<lparr>cc_Monitors = Monitors opts, cc_VolumeID = volId\<rparr>;
                               s2 = nemit (WriteToFile cephConf) s1
                           in case writeToFile env cephConf of
                                Some err \<Rightarrow> (Inl (Status Internal err), s2)
                              | None \<Rightarrow>
                                  (case isMountPoint env stagingTargetPath s2 of
                                     Inl err \<Rightarrow> (Inl (Status Internal err), s2)
                                   | Inr isMnt \<Rightarrow>
                                       if isMnt then (Inr (), s2)
                                       else stageMount env req opts s2)))))"

subsection \<open>NodeUnstageVolume\<close>

definition NodeUnstageVolume ::
  "node_env \<Rightarrow> nodeUnstageVolumeRequest \<Rightarrow> node_state \<Rightarrow> (status + unit) \<times> node_state" where
  "NodeUnstageVolume env req s =
     (case validateNodeUnstageVolumeRequest env req of
        Some err \<Rightarrow> (Inl (Status InvalidArgument err), s)
      | None \<Rightarrow>
          (let volId = nu_VolumeId req;
               stagingTargetPath = nu_StagingTargetPath req;
               s1 = nemit (UnmountVolume stagingTargetPath) s
           in case unmountVolume env stagingTargetPath of
                Some err \<Rightarrow> (Inl (Status Internal err), s1)
              | None \<Rightarrow>
                  (let s2 = nemit (OsRemove stagingTargetPath) (unmounted stagingTargetPath s1)
                   in case cachePop env volId s2 of
                        (Inl err, s3) \<Rightarrow> (Inl (Status Internal err), s3)
                      | (Inr ent, s3) \<Rightarrow>
                          if ProvisionVolume (volOptions ent)
                          then (let adminCr = \<lparr>cr_id = cephAdminID ent, cr_key = ''''\<rparr>;
                                    s4 = nemit (DeleteCephUser adminCr volId) s3
                                in case deleteCephUser env adminCr volId of
                                     Some err \<Rightarrow>
                                       (Inl (Status Internal err), cacheInsert volId ent s4)
                                   | None \<Rightarrow> (Inr (), s4))
                          else (Inr (), s3))))"

section \<open>Concrete inputs\<close>

subsection \<open>A controller with one backend\<close>

text \<open>
  A backend where every command succeeds and no image exists yet, the same backend with
  a metadata store that cannot be written, and the same backend with an image that cannot
  be deleted. The request creates \<open>pvc-1\<close> with a given \<open>requiredBytes\<close>, or with no
  capacity range at all.
\<close>

definition emptyController :: ctrl_state where
  "emptyController = \<lparr>rbdVolumes = [], effects = []\<rparr>"

definition okBackend :: ctrl_env where
  "okBackend =
     \<lparr>ValidateControllerServiceRequest = None,
      sprintCreateReq = (\<lambda>req. Name req),
      sprintDeleteReq = (\<lambda>req. dv_VolumeId req),
      getRBDVolumeOptions = (\<lambda>params. Inr \<lparr>VolName = [], VolID = [], Pool = ''rbd'', VolSize = 0\<rparr>),
      newUUID = ''0001'',
      rbdStatus = (\<lambda>vol secrets. False),
      createRBDImage = (\<lambda>vol sizeGB secrets. None),
      controllerFolder = ''/var/lib/csi-rbd/controller'',
      persistVolInfo = (\<lambda>volumeID dir vol. None),
      loadVolInfo = (\<lambda>volumeID dir.
         Inr \<lparr>VolName = ''pvc-1'', VolID = volumeID, Pool = ''rbd'', VolSize = 2147483648\<rparr>),
      deleteRBDImage = (\<lambda>vol secrets. None),
      deleteVolInfo = (\<lambda>volumeID dir. None)\<rparr>"

definition failingStore :: ctrl_env where
  "failingStore =
     okBackend\<lparr>persistVolInfo := (\<lambda>volumeID dir vol. Some ''no space left on device'')\<rparr>"

definition failingImageDelete :: ctrl_env where
  "failingImageDelete =
     okBackend\<lparr>deleteRBDImage := (\<lambda>vol secrets. Some ''rbd: image is busy'')\<rparr>"

definition writerCapability :: "volumeCapability option" where
  "writerCapability = Some \<lparr>AccessMode = Some \<lparr>Mode = SINGLE_NODE_WRITER\<rparr>\<rparr>"

definition readerCapability :: "volumeCapability option" where
  "readerCapability = Some \<lparr>AccessMode = Some \<lparr>Mode = MULTI_NODE_READER_ONLY\<rparr>\<rparr>"

definition createPvc1 :: "int option \<Rightarrow> createVolumeRequest" where
  "createPvc1 requiredBytes =
     \<lparr>Name = ''pvc-1'', VolumeCapabilities = Some [writerCapability],
      CapacityRange = map_option (\<lambda>n. \<lparr>RequiredBytes = n, LimitBytes = 0\<rparr>) requiredBytes,
      Parameters = [(''pool'', ''rbd'')], ControllerCreateSecrets = []\<rparr>"

definition pvc1Volume :: "int \<Rightarrow> rbdVolume" where
  "pvc1Volume n = \<lparr>VolName = ''pvc-1'', VolID = ''csi-rbd-0001'', Pool = ''rbd'', VolSize = n\<rparr>"

definition pvc1Created :: "int \<Rightarrow> ctrl_state" where
  "pvc1Created n =
     \<lparr>rbdVolumes = [(''csi-rbd-0001'', pvc1Volume n)],
      effects = [RbdStatus (pvc1Volume n) [],
                 CreateRBDImage (pvc1Volume n) (n sdiv 1073741824) [],
                 PersistVolInfo ''csi-rbd-0001'' ''/var/lib/csi-rbd/controller'' (pvc1Volume n),
                 IndexStore ''csi-rbd-0001'' (pvc1Volume n)]\<rparr>"

definition pvc1Response :: "int \<Rightarrow> volume" where
  "pvc1Response n =
     \<lparr>Id = ''csi-rbd-0001'', CapacityBytes = n, Attributes = [(''pool'', ''rbd'')]\<rparr>"

definition deletePvc1 :: deleteVolumeRequest where
  "deletePvc1 = \<lparr>dv_VolumeId = ''csi-rbd-0001'', ControllerDeleteSecrets = []\<rparr>"

definition twoCapabilities ::
  "volumeCapability option \<Rightarrow> volumeCapability option \<Rightarrow> validateVolumeCapabilitiesRequest" where
  "twoCapabilities a b = \<lparr>vv_VolumeCapabilities = Some [a, b]\<rparr>"

subsection \<open>Kinds of node effects\<close>

text \<open>The mounts, the cache inserts and the user creations among the effects of a call.\<close>

fun isMount :: "node_effect \<Rightarrow> bool" where
  "isMount (Mount p cr opts volId) = True"
| "isMount e = False"

fun isCacheInsert :: "node_effect \<Rightarrow> bool" where
  "isCacheInsert (CacheInsert volId ent) = True"
| "isCacheInsert e = False"

fun isCreateCephUser :: "node_effect \<Rightarrow> bool" where
  "isCreateCephUser (CreateCephUser opts cr volId) = True"
| "isCreateCephUser e = False"

subsection \<open>A node with one volume\<close>

text \<open>
  A node where every step succeeds and the volume is provisioned dynamically, the same
  node with a mounter that fails, and the same node with a Ceph cluster that refuses to
  delete the user. The requests stage and unstage \<open>vol-1\<close> at \<open>/staging/vol-1\<close>.
\<close>

definition emptyNode :: node_state where
  "emptyNode = \<lparr>nodeCache = Map.empty, mounts = Map.empty, node_effects = []\<rparr>"

definition dynamicOptions :: volumeOptions where
  "dynamicOptions = \<lparr>Monitors = ''mon1:6789'', RootPath = ''/'', ProvisionVolume = True\<rparr>"

definition adminCredentials :: credentials where
  "adminCredentials = \<lparr>cr_id = ''admin'', cr_key = ''adminkey''\<rparr>"

definition okNode :: node_env where
  "okNode =
     \<lparr>validateNodeStageVolumeRequest = (\<lambda>req. None),
      newVolumeOptions = (\<lambda>attrs. Inr dynamicOptions),
      createMountPoint = (\<lambda>p. None),
      writeToFile = (\<lambda>conf. None),
      statMountPoint = (\<lambda>p. None),
      getAdminCredentials = (\<lambda>secrets. Inr adminCredentials),
      getUserCredentials = (\<lambda>secrets. Inr \<lparr>cr_id = ''user'', cr_key = ''userkey''\<rparr>),
      storeCephCredentials = (\<lambda>volId cr. None),
      createCephUser = (\<lambda>opts cr volId. Inr \<lparr>Entity = ''client.csi-user'', Key = ''key''\<rparr>),
      cephEntityClientPrefix = ''client.'',
      getVolumeRootPath_ceph = (\<lambda>volId. ''/csi-volumes/'' @ volId),
      mount = (\<lambda>p cr opts volId. None),
      validateNodeUnstageVolumeRequest = (\<lambda>req. None),
      unmountVolume = (\<lambda>p. None),
      cacheMissError = (\<lambda>volId. ''node cache entry not found''),
      deleteCephUser = (\<lambda>cr volId. None)\<rparr>"

definition failingMount :: node_env where
  "failingMount = okNode\<lparr>mount := (\<lambda>p cr opts volId. Some ''mount failed'')\<rparr>"

definition failingUserDelete :: node_env where
  "failingUserDelete = okNode\<lparr>deleteCephUser := (\<lambda>cr volId. Some ''auth del failed'')\<rparr>"

definition stageVol1 :: nodeStageVolumeRequest where
  "stageVol1 =
     \<lparr>ns_VolumeId = ''vol-1'', ns_StagingTargetPath = ''/staging/vol-1'',
      VolumeAttributes = [], NodeStageSecrets = []\<rparr>"

definition unstageVol1 :: nodeUnstageVolumeRequest where
  "unstageVol1 = \<lparr>nu_VolumeId = ''vol-1'', nu_StagingTargetPath = ''/staging/vol-1''\<rparr>"

definition vol1Options :: volumeOptions where
  "vol1Options = dynamicOptions\<lparr>RootPath := ''/csi-volumes/vol-1''\<rparr>"

definition vol1Entry :: nodeCacheEntry where
  "vol1Entry = \<lparr>volOptions = vol1Options, cephAdminID = ''admin''\<rparr>"

definition vol1User :: credentials where
  "vol1User = \<lparr>cr_id = ''csi-user'', cr_key = ''key''\<rparr>"

definition vol1Conf :: cephConfigData where
  "vol1Conf = \<lparr>cc_Monitors = ''mon1:6789'', cc_VolumeID = ''vol-1''\<rparr>"

text \<open>The effects of staging \<open>vol-1\<close> up to the mount, and the node after the mount.\<close>

definition vol1StageEffects :: "node_effect list" where
  "vol1StageEffects =
     [CreateMountPoint ''/staging/vol-1'', WriteToFile vol1Conf,
      StoreCephCredentials ''vol-1'' adminCredentials,
      CacheInsert ''vol-1'' \<lparr>volOptions = dynamicOptions, cephAdminID = ''admin''\<rparr>,
      CreateCephUser dynamicOptions adminCredentials ''vol-1'',
      StoreCephCredentials ''vol-1'' vol1User,
      Mount ''/staging/vol-1'' vol1User vol1Options ''vol-1'']"

definition vol1Staged :: node_state where
  "vol1Staged =
     \<lparr>nodeCache = [''vol-1'' \<mapsto> vol1Entry], mounts = [''/staging/vol-1'' \<mapsto> ''vol-1''],
      node_effects = vol1StageEffects\<rparr>"

definition vol1MountFailed :: node_state where
  "vol1MountFailed =
     \<lparr>nodeCache = [''vol-1'' \<mapsto> vol1Entry], mounts = Map.empty,
      node_effects = vol1StageEffects\<rparr>"

section \<open>Properties of the controller service\<close>

subsection \<open>Auxiliary facts\<close>

lemma validateCapabilities_Supported:
  "Supported (validateCapabilities caps) \<longleftrightarrow>
     (\<forall>cap \<in> set caps. GetMode (GetAccessMode cap) = SINGLE_NODE_WRITER)"
  by (induction caps) simp_all

text \<open>Go's division truncates; dividing three times by 1024 is dividing once by \<open>2 ^ 30\<close>.\<close>

lemma sdiv_nonneg: "0 \<le> (k::int) \<Longrightarrow> 0 < l \<Longrightarrow> k sdiv l = k div l"
  by (cases "k = 0") (simp_all add: signed_divide_int_def)

lemma sdiv_neg: "(k::int) < 0 \<Longrightarrow> 0 < l \<Longrightarrow> k sdiv l = - ((- k) div l)"
  by (simp add: signed_divide_int_def)

lemma sdiv_sdiv:
  fixes k :: int
  assumes "0 < a" "0 < b"
  shows "k sdiv a sdiv b = k sdiv (a * b)"
proof (cases "0 \<le> k")
  case True
  then have "0 \<le> k div a" using assms by (simp add: pos_imp_zdiv_nonneg_iff)
  with True assms show ?thesis
    by (simp add: sdiv_nonneg zdiv_zmult2_eq)
next
  case False
  then have k: "k < 0" by simp
  have n: "0 \<le> (- k) div a" using k assms by (simp add: pos_imp_zdiv_nonneg_iff)
  show ?thesis
  proof (cases "(- k) div a = 0")
    case True
    then have "(- k) div (a * b) = 0" using assms k
      by (simp add: zdiv_zmult2_eq)
    with True k assms show ?thesis by (simp add: sdiv_neg)
  next
    case False
    with n have neg: "- ((- k) div a) < 0" by simp
    have "k sdiv a sdiv b = (- ((- k) div a)) sdiv b"
      using k assms by (simp add: sdiv_neg)
    also have "\<dots> = - ((- (- ((- k) div a))) div b)"
      using neg assms(2) by (rule sdiv_neg)
    also have "\<dots> = - ((- k) div (a * b))"
      using assms by (simp add: zdiv_zmult2_eq)
    also have "\<dots> = k sdiv (a * b)"
      using k assms by (simp add: sdiv_neg)
    finally show ?thesis .
  qed
qed

lemma sdiv_GB: "(k::int) sdiv 1024 sdiv 1024 sdiv 1024 = k sdiv 1073741824"
  by (simp add: sdiv_sdiv)

text \<open>A record stored under a name that the index did not hold is found under that name.\<close>

lemma getRBDVolumeByName_update:
  "getRBDVolumeByName vols n = None \<Longrightarrow> VolName v = n \<Longrightarrow>
     getRBDVolumeByName (AList.update k v vols) n = Some v"
  by (induction vols) (auto simp: getRBDVolumeByName_def split: if_splits)

text \<open>What a successful run of lines 76-121 has done.\<close>

lemma provisionVolume_success:
  assumes "provisionVolume env req s = (Inr vol, s')"
  shows "\<exists>rbdVol t.
           VolID rbdVol = Id vol \<and> VolSize rbdVol = CapacityBytes vol \<and>
           CapacityBytes vol = (case CapacityRange req of None \<Rightarrow> oneGB | Some r \<Rightarrow> RequiredBytes r) \<and>
           (Name req \<noteq> [] \<longrightarrow> VolName rbdVol = Name req) \<and>
           rbdVolumes s' = AList.update (Id vol) rbdVol (rbdVolumes s) \<and>
           effects s' = effects s @ t @
             [PersistVolInfo (Id vol) (controllerFolder env) rbdVol, IndexStore (Id vol) rbdVol] \<and>
           (t = [RbdStatus rbdVol (ControllerCreateSecrets req)] \<or>
            t = [RbdStatus rbdVol (ControllerCreateSecrets req),
                 CreateRBDImage rbdVol (CapacityBytes vol sdiv 1024 sdiv 1024 sdiv 1024)
                   (ControllerCreateSecrets req)])"
  using assms
  by (auto simp: provisionVolume_def storeVolume_def emit_def Let_def
           split: sum.splits option.splits if_splits)

text \<open>
  The names of the index stay distinct, and among distinct names the lookup does not
  depend on the order of the scan: it finds the one record of that name.
\<close>

lemma getRBDVolumeByName_None:
  "getRBDVolumeByName vols n = None \<longleftrightarrow> n \<notin> VolName ` snd ` set vols"
  by (induction vols) (auto simp: getRBDVolumeByName_def)

lemma getRBDVolumeByName_distinct:
  assumes "distinct (map (\<lambda>kv. VolName (snd kv)) vols)"
  shows "getRBDVolumeByName vols n = Some v \<longleftrightarrow> (\<exists>k. (k, v) \<in> set vols \<and> VolName v = n)"
  using assms
  by (induction vols) (auto simp: getRBDVolumeByName_def image_iff)

lemma update_names:
  "VolName ` snd ` set (AList.update k v vols) \<subseteq> insert (VolName v) (VolName ` snd ` set vols)"
  by (induction vols) auto

lemma update_names_distinct:
  assumes "distinct (map (\<lambda>kv. VolName (snd kv)) vols)"
    and "VolName v \<notin> VolName ` snd ` set vols"
  shows "distinct (map (\<lambda>kv. VolName (snd kv)) (AList.update k v vols))"
  using assms
proof (induction vols)
  case Nil
  then show ?case by simp
next
  case (Cons a vols)
  obtain k' v' where a: "a = (k', v')" by (cases a)
  show ?case
  proof (cases "k' = k")
    case True
    with Cons.prems a show ?thesis by (auto simp: image_iff)
  next
    case False
    have "VolName v' \<notin> insert (VolName v) (VolName ` snd ` set vols)"
      using Cons.prems a by (auto simp: image_iff)
    with update_names [of k v vols]
    have "VolName v' \<notin> VolName ` snd ` set (AList.update k v vols)"
      by blast
    with Cons a False show ?thesis by (auto simp: image_iff)
  qed
qed

lemma CreateVolume_names_distinct:
  assumes "distinct (map (\<lambda>kv. VolName (snd kv)) (rbdVolumes s))"
    and "CreateVolume env req s = (r, s')"
  shows "distinct (map (\<lambda>kv. VolName (snd kv)) (rbdVolumes s'))"
proof (cases "rbdVolumes s' = rbdVolumes s")
  case True
  with assms show ?thesis by simp
next
  case False
  with assms(2) have none: "getRBDVolumeByName (rbdVolumes s) (Name req) = None"
    and ne: "Name req \<noteq> []"
    and prov: "provisionVolume env req s = (r, s')"
    by (auto simp: CreateVolume_def split: option.splits if_splits)
  from prov False obtain vol where "r = Inr vol"
    by (cases r)
      (auto simp: provisionVolume_def storeVolume_def Let_def emit_def
            split: sum.splits option.splits if_splits)
  with prov have "provisionVolume env req s = (Inr vol, s')" by simp
  from provisionVolume_success [OF this] ne obtain rbdVol where
    "VolName rbdVol = Name req" "rbdVolumes s' = AList.update (Id vol) rbdVol (rbdVolumes s)"
    by auto
  with none assms(1) show ?thesis
    by (simp add: update_names_distinct getRBDVolumeByName_None)
qed

lemma DeleteVolume_names_distinct:
  assumes "distinct (map (\<lambda>kv. VolName (snd kv)) (rbdVolumes s))"
    and "DeleteVolume env req s = (r, s')"
  shows "distinct (map (\<lambda>kv. VolName (snd kv)) (rbdVolumes s'))"
  using assms
  by (auto simp: DeleteVolume_def emit_def Let_def AList.delete_eq distinct_map_filter
           split: option.splits sum.splits)

text \<open>The runs of the concrete inputs.\<close>

lemma CreateVolume_pvc1:
  "CreateVolume okBackend (createPvc1 (Some n)) emptyController
     = (Inr (pvc1Response n), pvc1Created n)"
  by (simp add: CreateVolume_def provisionVolume_def storeVolume_def emit_def Let_def
      getRBDVolumeByName_def okBackend_def createPvc1_def emptyController_def pvc1Response_def
      pvc1Created_def pvc1Volume_def sdiv_GB)

lemma CreateVolume_pvc1_default:
  "CreateVolume okBackend (createPvc1 None) emptyController
     = (Inr (pvc1Response 1073741824), pvc1Created 1073741824)"
  by (simp add: CreateVolume_def provisionVolume_def storeVolume_def emit_def Let_def
      getRBDVolumeByName_def okBackend_def createPvc1_def emptyController_def pvc1Response_def
      pvc1Created_def pvc1Volume_def oneGB_def)

lemma CreateVolume_pvc1_failingStore:
  "CreateVolume failingStore (createPvc1 (Some n)) emptyController
     = (Inr (pvc1Response n), pvc1Created n)"
  by (simp add: CreateVolume_def provisionVolume_def storeVolume_def emit_def Let_def
      getRBDVolumeByName_def okBackend_def failingStore_def createPvc1_def emptyController_def
      pvc1Response_def pvc1Created_def pvc1Volume_def sdiv_GB)

lemma CreateVolume_pvc1_reuse:
  "0 \<le> n \<Longrightarrow> CreateVolume okBackend (createPvc1 None) (pvc1Created n)
     = (Inr (pvc1Response n), pvc1Created n)"
  by (simp add: CreateVolume_def GetRequiredBytes_def getRBDVolumeByName_def okBackend_def
      createPvc1_def pvc1Response_def pvc1Created_def pvc1Volume_def)

subsection \<open>CreateVolume\<close>

text \<open>
  Claim C1. Two \<open>CreateVolume\<close> calls with the same non-empty name, the second right after
  the first: when the first call succeeds and the second call (which the driver accepts
  and which carries capabilities) requests at most the size returned by the first, the
  second call returns the same volume ID and the same capacity. It leaves the controller's
  state as it was, so it emits no effect at all: no probe of the backend, no image
  creation, no write of the metadata. The name is non-empty because the first call
  succeeded. The backend and the two requests are arbitrary otherwise.
\<close>

theorem CreateVolume_idempotent:
  assumes first: "CreateVolume env1 req1 s = (Inr vol1, s1)"
    and name: "Name req2 = Name req1"
    and valid: "ValidateControllerServiceRequest env2 = None" "VolumeCapabilities req2 \<noteq> None"
    and size: "GetRequiredBytes (CapacityRange req2) \<le> CapacityBytes vol1"
  shows "\<exists>vol2. CreateVolume env2 req2 s1 = (Inr vol2, s1) \<and>
           Id vol2 = Id vol1 \<and> CapacityBytes vol2 = CapacityBytes vol1"
proof -
  from first have ne: "Name req1 \<noteq> []"
    by (auto simp: CreateVolume_def split: option.splits if_splits)
  have "\<exists>exVol. getRBDVolumeByName (rbdVolumes s1) (Name req1) = Some exVol \<and>
          VolID exVol = Id vol1 \<and> VolSize exVol = CapacityBytes vol1"
  proof (cases "getRBDVolumeByName (rbdVolumes s) (Name req1)")
    case None
    with first have "provisionVolume env1 req1 s = (Inr vol1, s1)"
      by (auto simp: CreateVolume_def split: option.splits if_splits)
    from provisionVolume_success [OF this] ne None show ?thesis
      by (auto simp: getRBDVolumeByName_update)
  next
    case (Some exVol)
    with first show ?thesis
      by (auto simp: CreateVolume_def split: option.splits if_splits)
  qed
  with name valid size ne show ?thesis
    by (auto simp: CreateVolume_def)
qed

theorem CreateVolume_idempotent_witness:
  "\<exists>vol2. CreateVolume okBackend (createPvc1 (Some 2147483648)) (pvc1Created 2147483648)
             = (Inr vol2, pvc1Created 2147483648) \<and>
          Id vol2 = ''csi-rbd-0001'' \<and> CapacityBytes vol2 = 2147483648"
  using CreateVolume_idempotent
    [OF CreateVolume_pvc1 [of 2147483648], of "createPvc1 (Some 2147483648)" okBackend]
  by (simp add: createPvc1_def okBackend_def GetRequiredBytes_def pvc1Response_def)

text \<open>
  Claim C2. A \<open>CreateVolume\<close> call that the driver accepts, with a non-empty name and with
  capabilities, whose name is found in the index with a recorded size strictly smaller
  than the requested size, fails with \<open>AlreadyExists\<close> and returns the controller's state
  as it was: the index is not changed and no effect is emitted, so no image is created and
  no metadata is written.
\<close>

theorem CreateVolume_conflict:
  assumes "ValidateControllerServiceRequest env = None"
    and "Name req \<noteq> []" and "VolumeCapabilities req \<noteq> None"
    and "getRBDVolumeByName (rbdVolumes s) (Name req) = Some exVol"
    and "VolSize exVol < GetRequiredBytes (CapacityRange req)"
  shows "\<exists>msg. CreateVolume env req s = (Inl (Status AlreadyExists msg), s)"
  using assms by (simp add: CreateVolume_def)

theorem CreateVolume_conflict_witness:
  "\<exists>msg. CreateVolume okBackend (createPvc1 (Some 2147483648)) (pvc1Created 1073741824)
     = (Inl (Status AlreadyExists msg), pvc1Created 1073741824)"
  using CreateVolume_conflict
    [of okBackend "createPvc1 (Some 2147483648)" "pvc1Created 1073741824" "pvc1Volume 1073741824"]
  by (simp add: okBackend_def createPvc1_def pvc1Created_def pvc1Volume_def
      getRBDVolumeByName_def GetRequiredBytes_def)

text \<open>
  Claim C3 asks for an \<open>Internal\<close> error when the volume record cannot be persisted. The
  run below is \<open>CreateVolume\<close> for \<open>pvc-1\<close> with 2 GiB on a backend whose
  \<open>persistVolInfo\<close> fails: the record is handed to \<open>persistVolInfo\<close>, the error is
  returned, and the call answers with the volume all the same.
\<close>

theorem CreateVolume_persist_failure_succeeds:
  "persistVolInfo failingStore ''csi-rbd-0001'' (controllerFolder failingStore)
     (pvc1Volume 2147483648) = Some ''no space left on device'' \<and>
   PersistVolInfo ''csi-rbd-0001'' (controllerFolder failingStore) (pvc1Volume 2147483648)
     \<in> set (effects (snd (CreateVolume failingStore (createPvc1 (Some 2147483648))
                              emptyController))) \<and>
   fst (CreateVolume failingStore (createPvc1 (Some 2147483648)) emptyController)
     = Inr (pvc1Response 2147483648)"
proof -
  have "persistVolInfo failingStore ''csi-rbd-0001'' (controllerFolder failingStore)
          (pvc1Volume 2147483648) = Some ''no space left on device''"
    and "controllerFolder failingStore = ''/var/lib/csi-rbd/controller''"
    by (simp_all add: failingStore_def okBackend_def)
  then show ?thesis
    by (simp add: CreateVolume_pvc1_failingStore pvc1Created_def)
qed

text \<open>
  Claim C9 says that every \<open>CreateVolume\<close> call with an unspecified size gets 1 GiB in
  the record and in the response. A call without a capacity range for the name of an
  existing volume of 2 GiB answers with 2 GiB; and a call whose capacity range is present
  with \<open>requiredBytes = 0\<close> (the value that stands for an unset field) creates a volume
  of 0 bytes.
\<close>

theorem CreateVolume_default_size_not_applied:
  "CapacityRange (createPvc1 None) = None \<and>
   fst (CreateVolume okBackend (createPvc1 None) (pvc1Created 2147483648))
     = Inr (pvc1Response 2147483648) \<and>
   CapacityBytes (pvc1Response 2147483648) = 2147483648 \<and>
   GetRequiredBytes (CapacityRange (createPvc1 (Some 0))) = 0 \<and>
   fst (CreateVolume okBackend (createPvc1 (Some 0)) emptyController) = Inr (pvc1Response 0) \<and>
   CapacityBytes (pvc1Response 0) = 0"
proof -
  have "CapacityRange (createPvc1 None) = None"
    and "GetRequiredBytes (CapacityRange (createPvc1 (Some 0))) = 0"
    and "CapacityBytes (pvc1Response 2147483648) = 2147483648"
    and "CapacityBytes (pvc1Response 0) = 0"
    by (simp_all add: createPvc1_def GetRequiredBytes_def pvc1Response_def)
  then show ?thesis
    by (simp add: CreateVolume_pvc1_reuse CreateVolume_pvc1)
qed

text \<open>
  Claim C9, amended. For a successful \<open>CreateVolume\<close> call without a capacity range: when
  the name is not in the index, the call creates the volume with exactly 1 GiB,
  1073741824 bytes, in the returned \<open>capacityBytes\<close>, in the record that it hands to
  \<open>persistVolInfo\<close> and in the record that the index holds under the new volume ID; when
  the name is in the index, the call returns the ID and the recorded size of the existing
  volume and changes nothing.
\<close>

theorem CreateVolume_default_size:
  assumes "CapacityRange req = None"
    and "CreateVolume env req s = (Inr vol, s')"
  shows "(getRBDVolumeByName (rbdVolumes s) (Name req) = None \<longrightarrow>
           CapacityBytes vol = 1073741824 \<and>
           (\<exists>rbdVol. VolSize rbdVol = 1073741824 \<and>
              PersistVolInfo (Id vol) (controllerFolder env) rbdVol
                \<in> set (drop (length (effects s)) (effects s')) \<and>
              map_of (rbdVolumes s') (Id vol) = Some rbdVol)) \<and>
         (\<forall>exVol. getRBDVolumeByName (rbdVolumes s) (Name req) = Some exVol \<longrightarrow>
           CapacityBytes vol = VolSize exVol \<and> Id vol = VolID exVol \<and> s' = s)"
proof (intro conjI impI allI)
  assume none: "getRBDVolumeByName (rbdVolumes s) (Name req) = None"
  with assms have "provisionVolume env req s = (Inr vol, s')"
    by (auto simp: CreateVolume_def split: option.splits if_splits)
  from provisionVolume_success [OF this] assms(1)
  show "CapacityBytes vol = 1073741824"
    and "\<exists>rbdVol. VolSize rbdVol = 1073741824 \<and>
              PersistVolInfo (Id vol) (controllerFolder env) rbdVol
                \<in> set (drop (length (effects s)) (effects s')) \<and>
              map_of (rbdVolumes s') (Id vol) = Some rbdVol"
    by (auto simp: oneGB_def update_conv')
next
  fix exVol
  assume "getRBDVolumeByName (rbdVolumes s) (Name req) = Some exVol"
  with assms(2) show "CapacityBytes vol = VolSize exVol" and "Id vol = VolID exVol" and "s' = s"
    by (auto simp: CreateVolume_def split: option.splits if_splits)
qed

theorem CreateVolume_default_size_witness:
  "CapacityRange (createPvc1 None) = None \<and>
   CreateVolume okBackend (createPvc1 None) emptyController
     = (Inr (pvc1Response 1073741824), pvc1Created 1073741824) \<and>
   CapacityBytes (pvc1Response 1073741824) = 1073741824 \<and>
   (\<exists>rbdVol. VolSize rbdVol = 1073741824 \<and>
      PersistVolInfo ''csi-rbd-0001'' (controllerFolder okBackend) rbdVol
        \<in> set (effects (pvc1Created 1073741824)) \<and>
      map_of (rbdVolumes (pvc1Created 1073741824)) ''csi-rbd-0001'' = Some rbdVol) \<and>
   CreateVolume okBackend (createPvc1 None) (pvc1Created 2147483648)
     = (Inr (pvc1Response 2147483648), pvc1Created 2147483648) \<and>
   CapacityBytes (pvc1Response 2147483648) = VolSize (pvc1Volume 2147483648)"
proof -
  have range: "CapacityRange (createPvc1 None) = None"
    by (simp add: createPvc1_def)
  have fresh: "getRBDVolumeByName (rbdVolumes emptyController) (Name (createPvc1 None)) = None"
    by (simp add: getRBDVolumeByName_def emptyController_def)
  have found: "getRBDVolumeByName (rbdVolumes (pvc1Created 2147483648)) (Name (createPvc1 None))
      = Some (pvc1Volume 2147483648)"
    by (simp add: getRBDVolumeByName_def pvc1Created_def pvc1Volume_def createPvc1_def)
  have run: "CreateVolume okBackend (createPvc1 None) emptyController
     = (Inr (pvc1Response 1073741824), pvc1Created 1073741824)"
    by (rule CreateVolume_pvc1_default)
  have reuse: "CreateVolume okBackend (createPvc1 None) (pvc1Created 2147483648)
     = (Inr (pvc1Response 2147483648), pvc1Created 2147483648)"
    by (rule CreateVolume_pvc1_reuse) simp
  from CreateVolume_default_size [OF range run] fresh
  have 1: "CapacityBytes (pvc1Response 1073741824) = 1073741824 \<and>
   (\<exists>rbdVol. VolSize rbdVol = 1073741824 \<and>
      PersistVolInfo ''csi-rbd-0001'' (controllerFolder okBackend) rbdVol
        \<in> set (effects (pvc1Created 1073741824)) \<and>
      map_of (rbdVolumes (pvc1Created 1073741824)) ''csi-rbd-0001'' = Some rbdVol)"
    by (auto simp: pvc1Response_def emptyController_def dest: in_set_dropD)
  from CreateVolume_default_size [OF range reuse] found
  have 2: "CapacityBytes (pvc1Response 2147483648) = VolSize (pvc1Volume 2147483648)"
    by blast
  from range run reuse 1 2 show ?thesis by blast
qed

text \<open>
  Claim C10. When a successful \<open>CreateVolume\<close> call creates a backend image, the size
  passed to \<open>createRBDImage\<close> is the volume's byte size divided by \<open>2 ^ 30\<close> with Go's
  truncating division, while the response and the record handed to \<open>persistVolInfo\<close>
  carry the byte size itself (the requested bytes, or 1 GiB without a capacity range).
  In particular there is a call with \<open>requiredBytes\<close> strictly between 0 and \<open>2 ^ 30\<close>
  whose image is created with size 0 although the returned capacity is not 0.
\<close>

theorem CreateVolume_image_size_truncated:
  "(CreateVolume env req s = (Inr vol, s') \<longrightarrow>
      CreateRBDImage rbdVol sizeGB secrets \<in> set (drop (length (effects s)) (effects s')) \<longrightarrow>
        sizeGB = CapacityBytes vol sdiv 2 ^ 30 \<and>
        CapacityBytes vol = (case CapacityRange req of None \<Rightarrow> oneGB | Some r \<Rightarrow> RequiredBytes r) \<and>
        VolSize rbdVol = CapacityBytes vol \<and>
        PersistVolInfo (Id vol) (controllerFolder env) rbdVol
          \<in> set (drop (length (effects s)) (effects s'))) \<and>
   (\<exists>env0 req0 s0 vol0 s0' rbdVol0 secrets0.
      0 < GetRequiredBytes (CapacityRange req0) \<and> GetRequiredBytes (CapacityRange req0) < 2 ^ 30 \<and>
      CreateVolume env0 req0 s0 = (Inr vol0, s0') \<and>
      CreateRBDImage rbdVol0 0 secrets0 \<in> set (drop (length (effects s0)) (effects s0')) \<and>
      CapacityBytes vol0 \<noteq> 0)"
proof (intro conjI impI)
  assume ok: "CreateVolume env req s = (Inr vol, s')"
    and img: "CreateRBDImage rbdVol sizeGB secrets \<in> set (drop (length (effects s)) (effects s'))"
  have "s' \<noteq> s" using img by auto
  with ok have "provisionVolume env req s = (Inr vol, s')"
    by (auto simp: CreateVolume_def split: option.splits if_splits)
  from provisionVolume_success [OF this] img
  show "sizeGB = CapacityBytes vol sdiv 2 ^ 30"
    and "CapacityBytes vol = (case CapacityRange req of None \<Rightarrow> oneGB | Some r \<Rightarrow> RequiredBytes r)"
    and "VolSize rbdVol = CapacityBytes vol"
    and "PersistVolInfo (Id vol) (controllerFolder env) rbdVol
          \<in> set (drop (length (effects s)) (effects s'))"
    by (auto simp: sdiv_GB)
next
  have "0 < GetRequiredBytes (CapacityRange (createPvc1 (Some 536870912))) \<and>
        GetRequiredBytes (CapacityRange (createPvc1 (Some 536870912))) < 2 ^ 30 \<and>
        CreateVolume okBackend (createPvc1 (Some 536870912)) emptyController
          = (Inr (pvc1Response 536870912), pvc1Created 536870912) \<and>
        CreateRBDImage (pvc1Volume 536870912) 0 []
          \<in> set (drop (length (effects emptyController)) (effects (pvc1Created 536870912))) \<and>
        CapacityBytes (pvc1Response 536870912) \<noteq> 0"
    using CreateVolume_pvc1 [of 536870912]
    by (simp add: createPvc1_def GetRequiredBytes_def emptyController_def
        pvc1Created_def pvc1Response_def sdiv_nonneg)
  then show "\<exists>env0 req0 s0 vol0 s0' rbdVol0 secrets0.
      0 < GetRequiredBytes (CapacityRange req0) \<and> GetRequiredBytes (CapacityRange req0) < 2 ^ 30 \<and>
      CreateVolume env0 req0 s0 = (Inr vol0, s0') \<and>
      CreateRBDImage rbdVol0 0 secrets0 \<in> set (drop (length (effects s0)) (effects s0')) \<and>
      CapacityBytes vol0 \<noteq> 0"
    by blast
qed

theorem CreateVolume_image_size_truncated_witness:
  "CreateVolume okBackend (createPvc1 (Some 536870912)) emptyController
     = (Inr (pvc1Response 536870912), pvc1Created 536870912) \<and>
   CreateRBDImage (pvc1Volume 536870912) 0 []
     \<in> set (drop (length (effects emptyController)) (effects (pvc1Created 536870912))) \<and>
   (0::int) = CapacityBytes (pvc1Response 536870912) sdiv 2 ^ 30 \<and>
   CapacityBytes (pvc1Response 536870912) = 536870912 \<and>
   VolSize (pvc1Volume 536870912) = 536870912"
proof -
  have run: "CreateVolume okBackend (createPvc1 (Some 536870912)) emptyController
     = (Inr (pvc1Response 536870912), pvc1Created 536870912)"
    by (rule CreateVolume_pvc1)
  have img: "CreateRBDImage (pvc1Volume 536870912) 0 []
     \<in> set (drop (length (effects emptyController)) (effects (pvc1Created 536870912)))"
    by (simp add: emptyController_def pvc1Created_def sdiv_nonneg)
  from CreateVolume_image_size_truncated
      [of okBackend "createPvc1 (Some 536870912)" emptyController "pvc1Response 536870912"
       "pvc1Created 536870912" "pvc1Volume 536870912" 0 "[]"] run img
  have "(0::int) = CapacityBytes (pvc1Response 536870912) sdiv 2 ^ 30 \<and>
        VolSize (pvc1Volume 536870912) = CapacityBytes (pvc1Response 536870912)"
    by blast
  with run img show ?thesis
    by (simp add: pvc1Response_def)
qed

subsection \<open>DeleteVolume\<close>

text \<open>
  Claim C4. The effects of a \<open>DeleteVolume\<close> call are an initial part of the sequence:
  load the record, delete the backend image, delete the persisted record, remove the
  entry of the index; so the removals happen in that order. A call that the driver
  accepts and whose record loads does delete the backend image. If that deletion returns
  an error, the call returns \<open>Internal\<close> with that error, the persisted record is not
  deleted and the index is not touched. If it succeeds, the persisted record is deleted
  next; if that returns an error, the call returns \<open>Internal\<close> with that error and the
  index is not touched. If both succeed, the effects are the whole sequence, the entry
  is removed from the index and the call succeeds. A call whose record does not load
  returns \<open>Internal\<close> and removes nothing. The index changes only by the last step.
\<close>

theorem DeleteVolume_removal_order:
  assumes "DeleteVolume env req s = (r, s')"
  shows "\<exists>t. effects s' = effects s @ t \<and>
     (case loadVolInfo env (dv_VolumeId req) (controllerFolder env) of
        Inl err \<Rightarrow>
          prefix t [LoadVolInfo (dv_VolumeId req) (controllerFolder env)] \<and>
          (ValidateControllerServiceRequest env = None \<longrightarrow>
             t = [LoadVolInfo (dv_VolumeId req) (controllerFolder env)] \<and>
             r = Inl (Status Internal err))
      | Inr vol \<Rightarrow>
          prefix t [LoadVolInfo (dv_VolumeId req) (controllerFolder env),
                    DeleteRBDImage vol (ControllerDeleteSecrets req),
                    DeleteVolInfo (dv_VolumeId req) (controllerFolder env),
                    IndexDelete (dv_VolumeId req)] \<and>
          (deleteRBDImage env vol (ControllerDeleteSecrets req) \<noteq> None \<longrightarrow>
             DeleteVolInfo (dv_VolumeId req) (controllerFolder env) \<notin> set t \<and>
             IndexDelete (dv_VolumeId req) \<notin> set t \<and> r \<noteq> Inr ()) \<and>
          (deleteVolInfo env (dv_VolumeId req) (controllerFolder env) \<noteq> None \<longrightarrow>
             IndexDelete (dv_VolumeId req) \<notin> set t \<and> r \<noteq> Inr ()) \<and>
          (ValidateControllerServiceRequest env = None \<longrightarrow>
             DeleteRBDImage vol (ControllerDeleteSecrets req) \<in> set t \<and>
             (\<forall>err. deleteRBDImage env vol (ControllerDeleteSecrets req) = Some err \<longrightarrow>
                r = Inl (Status Internal err)) \<and>
             (deleteRBDImage env vol (ControllerDeleteSecrets req) = None \<longrightarrow>
                DeleteVolInfo (dv_VolumeId req) (controllerFolder env) \<in> set t \<and>
                (\<forall>err. deleteVolInfo env (dv_VolumeId req) (controllerFolder env) = Some err \<longrightarrow>
                   r = Inl (Status Internal err)) \<and>
                (deleteVolInfo env (dv_VolumeId req) (controllerFolder env) = None \<longrightarrow>
                   t = [LoadVolInfo (dv_VolumeId req) (controllerFolder env),
                        DeleteRBDImage vol (ControllerDeleteSecrets req),
                        DeleteVolInfo (dv_VolumeId req) (controllerFolder env),
                        IndexDelete (dv_VolumeId req)] \<and>
                   r = Inr () \<and>
                   rbdVolumes s' = AList.delete (dv_VolumeId req) (rbdVolumes s))))) \<and>
     (IndexDelete (dv_VolumeId req) \<notin> set t \<longrightarrow> rbdVolumes s' = rbdVolumes s) \<and>
     (IndexDelete (dv_VolumeId req) \<in> set t \<longrightarrow>
        r = Inr () \<and> rbdVolumes s' = AList.delete (dv_VolumeId req) (rbdVolumes s))"
  using assms
  by (auto simp: DeleteVolume_def emit_def Let_def split: option.splits sum.splits)

theorem DeleteVolume_removal_order_witness:
  "(\<exists>t. effects (snd (DeleteVolume failingImageDelete deletePvc1 (pvc1Created 2147483648)))
          = effects (pvc1Created 2147483648) @ t \<and>
       DeleteRBDImage (pvc1Volume 2147483648) [] \<in> set t \<and>
       DeleteVolInfo ''csi-rbd-0001'' ''/var/lib/csi-rbd/controller'' \<notin> set t \<and>
       IndexDelete ''csi-rbd-0001'' \<notin> set t \<and>
       rbdVolumes (snd (DeleteVolume failingImageDelete deletePvc1 (pvc1Created 2147483648)))
          = [(''csi-rbd-0001'', pvc1Volume 2147483648)]) \<and>
   fst (DeleteVolume failingImageDelete deletePvc1 (pvc1Created 2147483648))
     = Inl (Status Internal ''rbd: image is busy'') \<and>
   effects (snd (DeleteVolume okBackend deletePvc1 (pvc1Created 2147483648)))
     = effects (pvc1Created 2147483648) @
         [LoadVolInfo ''csi-rbd-0001'' ''/var/lib/csi-rbd/controller'',
          DeleteRBDImage (pvc1Volume 2147483648) [],
          DeleteVolInfo ''csi-rbd-0001'' ''/var/lib/csi-rbd/controller'',
          IndexDelete ''csi-rbd-0001''] \<and>
   fst (DeleteVolume okBackend deletePvc1 (pvc1Created 2147483648)) = Inr () \<and>
   rbdVolumes (snd (DeleteVolume okBackend deletePvc1 (pvc1Created 2147483648))) = []"
proof -
  have load: "loadVolInfo failingImageDelete (dv_VolumeId deletePvc1)
      (controllerFolder failingImageDelete) = Inr (pvc1Volume 2147483648)"
    "loadVolInfo okBackend (dv_VolumeId deletePvc1)
      (controllerFolder okBackend) = Inr (pvc1Volume 2147483648)"
    by (simp_all add: failingImageDelete_def okBackend_def deletePvc1_def pvc1Volume_def)
  have busy: "deleteRBDImage failingImageDelete (pvc1Volume 2147483648)
      (ControllerDeleteSecrets deletePvc1) = Some ''rbd: image is busy''"
    by (simp add: failingImageDelete_def)
  have ok: "ValidateControllerServiceRequest failingImageDelete = None"
    "ValidateControllerServiceRequest okBackend = None"
    "deleteRBDImage okBackend (pvc1Volume 2147483648) (ControllerDeleteSecrets deletePvc1) = None"
    "deleteVolInfo okBackend (dv_VolumeId deletePvc1) (controllerFolder okBackend) = None"
    by (simp_all add: failingImageDelete_def okBackend_def)
  have args: "dv_VolumeId deletePvc1 = ''csi-rbd-0001''"
    "ControllerDeleteSecrets deletePvc1 = []"
    "controllerFolder failingImageDelete = ''/var/lib/csi-rbd/controller''"
    "controllerFolder okBackend = ''/var/lib/csi-rbd/controller''"
    by (simp_all add: failingImageDelete_def okBackend_def deletePvc1_def)
  have index: "rbdVolumes (pvc1Created 2147483648) = [(''csi-rbd-0001'', pvc1Volume 2147483648)]"
    by (simp add: pvc1Created_def)
  have a: "DeleteVolume failingImageDelete deletePvc1 (pvc1Created 2147483648)
      = (fst (DeleteVolume failingImageDelete deletePvc1 (pvc1Created 2147483648)),
         snd (DeleteVolume failingImageDelete deletePvc1 (pvc1Created 2147483648)))"
    and b: "DeleteVolume okBackend deletePvc1 (pvc1Created 2147483648)
      = (fst (DeleteVolume okBackend deletePvc1 (pvc1Created 2147483648)),
         snd (DeleteVolume okBackend deletePvc1 (pvc1Created 2147483648)))"
    by simp_all
  from DeleteVolume_removal_order [OF a] load(1) busy ok(1) args index
  have 1: "(\<exists>t. effects (snd (DeleteVolume failingImageDelete deletePvc1 (pvc1Created 2147483648)))
          = effects (pvc1Created 2147483648) @ t \<and>
       DeleteRBDImage (pvc1Volume 2147483648) [] \<in> set t \<and>
       DeleteVolInfo ''csi-rbd-0001'' ''/var/lib/csi-rbd/controller'' \<notin> set t \<and>
       IndexDelete ''csi-rbd-0001'' \<notin> set t \<and>
       rbdVolumes (snd (DeleteVolume failingImageDelete deletePvc1 (pvc1Created 2147483648)))
          = [(''csi-rbd-0001'', pvc1Volume 2147483648)]) \<and>
   fst (DeleteVolume failingImageDelete deletePvc1 (pvc1Created 2147483648))
     = Inl (Status Internal ''rbd: image is busy'')"
    by auto
  from DeleteVolume_removal_order [OF b] load(2) ok args index
  have 2: "effects (snd (DeleteVolume okBackend deletePvc1 (pvc1Created 2147483648)))
     = effects (pvc1Created 2147483648) @
         [LoadVolInfo ''csi-rbd-0001'' ''/var/lib/csi-rbd/controller'',
          DeleteRBDImage (pvc1Volume 2147483648) [],
          DeleteVolInfo ''csi-rbd-0001'' ''/var/lib/csi-rbd/controller'',
          IndexDelete ''csi-rbd-0001''] \<and>
   fst (DeleteVolume okBackend deletePvc1 (pvc1Created 2147483648)) = Inr () \<and>
   rbdVolumes (snd (DeleteVolume okBackend deletePvc1 (pvc1Created 2147483648))) = []"
    by auto
  from 1 2 show ?thesis by blast
qed

subsection \<open>ValidateVolumeCapabilities\<close>

text \<open>
  Claim C5. \<open>ValidateVolumeCapabilities\<close> always returns a response, never an error, and
  the response has \<open>supported = true\<close> exactly when every capability of the request has
  access mode single-node-writer; a request without capabilities is supported.
\<close>

theorem ValidateVolumeCapabilities_supported:
  "\<exists>resp. ValidateVolumeCapabilities req = Inr resp \<and>
     (Supported resp \<longleftrightarrow>
        (\<forall>cap \<in> set (capabilityList req). GetMode (GetAccessMode cap) = SINGLE_NODE_WRITER)) \<and>
     (capabilityList req = [] \<longrightarrow> Supported resp)"
  by (simp add: ValidateVolumeCapabilities_def validateCapabilities_Supported)

theorem ValidateVolumeCapabilities_supported_witness:
  "(\<exists>resp. ValidateVolumeCapabilities (twoCapabilities writerCapability readerCapability)
      = Inr resp \<and> \<not> Supported resp) \<and>
   (\<exists>resp. ValidateVolumeCapabilities (twoCapabilities writerCapability writerCapability)
      = Inr resp \<and> Supported resp)"
  using ValidateVolumeCapabilities_supported [of "twoCapabilities writerCapability readerCapability"]
    ValidateVolumeCapabilities_supported [of "twoCapabilities writerCapability writerCapability"]
  by (simp add: capabilityList_def twoCapabilities_def writerCapability_def readerCapability_def
      GetMode_def GetAccessMode_def)

section \<open>Properties of the node service\<close>

subsection \<open>Auxiliary facts\<close>

text \<open>The probe reads the mount table only.\<close>

lemma isMountPoint_nemit [simp]: "isMountPoint env p (nemit e s) = isMountPoint env p s"
  by (simp add: isMountPoint_def nemit_def split: option.splits)

text \<open>
  What \<open>getOrCreateUser\<close> does to the cache, whatever it returns: it touches no mount and
  no entry of another volume, it removes nothing, and once it has inserted the entry the
  entry is there at the end.
\<close>

lemma getOrCreateUser_cache:
  assumes "getOrCreateUser env opts volId req s = (r, s')"
  shows "mounts s' = mounts s"
    and "v \<noteq> volId \<Longrightarrow> nodeCache s' v = nodeCache s v"
    and "nodeCache s volId \<noteq> None \<Longrightarrow> nodeCache s' volId \<noteq> None"
    and "CacheInsert volId e \<in> set (drop (length (node_effects s)) (node_effects s'))
           \<Longrightarrow> nodeCache s' volId \<noteq> None"
    and "length (node_effects s) \<le> length (node_effects s')"
    and "take (length (node_effects s)) (node_effects s') = node_effects s"
  using assms
  by (auto simp: getOrCreateUser_def storeUserCredentials_def cacheInsert_def nemit_def Let_def
           split: if_splits sum.splits option.splits)

text \<open>A run of \<open>getOrCreateUser\<close> that returns credentials.\<close>

lemma getOrCreateUser_success:
  assumes "getOrCreateUser env opts volId req s = (Inr (cr, opts'), s')"
  shows "\<exists>t. node_effects s' = node_effects s @ t \<and>
           filter isMount t = [] \<and>
           length (filter isCacheInsert t) = 1 \<and>
           length (filter isCreateCephUser t) = (if ProvisionVolume opts then 1 else 0) \<and>
           mounts s' = mounts s \<and> nodeCache s' volId \<noteq> None"
  using assms
  by (auto simp: getOrCreateUser_def storeUserCredentials_def cacheInsert_def nemit_def Let_def
           split: if_splits sum.splits option.splits)

text \<open>A successful \<open>NodeStageVolume\<close> on a path that was not mounted.\<close>

lemma NodeStageVolume_fresh:
  assumes "NodeStageVolume env req s = (Inr (), s1)"
    and "mounts s (ns_StagingTargetPath req) = None"
    and "newVolumeOptions env (VolumeAttributes req) = Inr opts"
  shows "\<exists>t. node_effects s1 = node_effects s @ t \<and>
           length (filter isMount t) = 1 \<and>
           length (filter isCacheInsert t) = 1 \<and>
           length (filter isCreateCephUser t) = (if ProvisionVolume opts then 1 else 0) \<and>
           mounts s1 = (mounts s)(ns_StagingTargetPath req \<mapsto> ns_VolumeId req) \<and>
           nodeCache s1 (ns_VolumeId req) \<noteq> None"
proof -
  let ?p = "ns_StagingTargetPath req"
  let ?conf = "\<lparr>cc_Monitors = Monitors opts, cc_VolumeID = ns_VolumeId req\<rparr>"
  let ?s2 = "nemit (WriteToFile ?conf) (nemit (CreateMountPoint ?p) s)"
  from assms have stage: "stageMount env req opts ?s2 = (Inr (), s1)"
    by (auto simp: NodeStageVolume_def isMountPoint_def Let_def nemit_def
             split: option.splits sum.splits if_splits)
  then obtain cr opts' s3 where
    user: "getOrCreateUser env opts (ns_VolumeId req) req ?s2 = (Inr (cr, opts'), s3)"
    and s1: "s1 = mounted ?p (ns_VolumeId req) (nemit (Mount ?p cr opts' (ns_VolumeId req)) s3)"
    by (auto simp: stageMount_def Let_def split: prod.splits sum.splits goerr.splits option.splits)
  from getOrCreateUser_success [OF user] s1 show ?thesis
    by (auto simp: mounted_def nemit_def)
qed

text \<open>The runs of the concrete inputs.\<close>

lemma NodeStageVolume_vol1:
  "NodeStageVolume okNode stageVol1 emptyNode = (Inr (), vol1Staged)"
  by (simp add: NodeStageVolume_def stageMount_def getOrCreateUser_def storeUserCredentials_def
      cacheInsert_def isMountPoint_def mounted_def nemit_def Let_def okNode_def stageVol1_def
      emptyNode_def vol1Staged_def vol1StageEffects_def vol1Entry_def vol1Options_def
      vol1User_def vol1Conf_def dynamicOptions_def adminCredentials_def)

lemma NodeStageVolume_vol1_failingMount:
  "NodeStageVolume failingMount stageVol1 emptyNode
     = (Inl (Status Internal ''mount failed''), vol1MountFailed)"
  by (simp add: NodeStageVolume_def stageMount_def getOrCreateUser_def storeUserCredentials_def
      cacheInsert_def isMountPoint_def mounted_def nemit_def Let_def okNode_def failingMount_def
      stageVol1_def emptyNode_def vol1MountFailed_def vol1StageEffects_def vol1Entry_def
      vol1Options_def vol1User_def vol1Conf_def dynamicOptions_def adminCredentials_def)

subsection \<open>NodeStageVolume\<close>

text \<open>
  Claim C6. When a \<open>NodeStageVolume\<close> call reaches the mount-point probe (the request is
  valid, the options parse, the mount point and the configuration file are written) and
  the probe reports that the staging path is a mount point, the call returns success and
  has done nothing else: the cache and the mount table are as before, and the only
  effects are the two steps before the probe, so no credentials are fetched, stored or
  created, no entry is inserted and nothing is mounted. Hence two calls in a row for the
  same staging path, the first one successful on a path that was not mounted and the
  second one reaching the probe without a stat error, perform between them exactly one
  mount, one cache insert and one user creation (none for a pre-provisioned volume), all
  of them in the first call; the second call succeeds and leaves cache and mounts alone.
\<close>

theorem NodeStageVolume_already_mounted:
  "(validateNodeStageVolumeRequest env req = None \<longrightarrow>
    newVolumeOptions env (VolumeAttributes req) = Inr opts \<longrightarrow>
    createMountPoint env (ns_StagingTargetPath req) = None \<longrightarrow>
    writeToFile env \<lparr>cc_Monitors = Monitors opts, cc_VolumeID = ns_VolumeId req\<rparr> = None \<longrightarrow>
    isMountPoint env (ns_StagingTargetPath req) s = Inr True \<longrightarrow>
      NodeStageVolume env req s =
        (Inr (), s\<lparr>node_effects := node_effects s @
                     [CreateMountPoint (ns_StagingTargetPath req),
                      WriteToFile \<lparr>cc_Monitors = Monitors opts, cc_VolumeID = ns_VolumeId req\<rparr>]\<rparr>)) \<and>
   (NodeStageVolume env1 req1 s0 = (Inr (), s1) \<longrightarrow>
    mounts s0 (ns_StagingTargetPath req1) = None \<longrightarrow>
    newVolumeOptions env1 (VolumeAttributes req1) = Inr opts1 \<longrightarrow>
    ns_StagingTargetPath req2 = ns_StagingTargetPath req1 \<longrightarrow>
    validateNodeStageVolumeRequest env2 req2 = None \<longrightarrow>
    newVolumeOptions env2 (VolumeAttributes req2) = Inr opts2 \<longrightarrow>
    createMountPoint env2 (ns_StagingTargetPath req2) = None \<longrightarrow>
    writeToFile env2 \<lparr>cc_Monitors = Monitors opts2, cc_VolumeID = ns_VolumeId req2\<rparr> = None \<longrightarrow>
    statMountPoint env2 (ns_StagingTargetPath req2) = None \<longrightarrow>
      (\<exists>s2. NodeStageVolume env2 req2 s1 = (Inr (), s2) \<and>
            nodeCache s2 = nodeCache s1 \<and> mounts s2 = mounts s1 \<and>
            length (filter isMount (drop (length (node_effects s0)) (node_effects s2))) = 1 \<and>
            length (filter isCacheInsert (drop (length (node_effects s0)) (node_effects s2))) = 1 \<and>
            length (filter isCreateCephUser (drop (length (node_effects s0)) (node_effects s2)))
              = (if ProvisionVolume opts1 then 1 else 0)))"
proof (intro conjI impI)
  assume "validateNodeStageVolumeRequest env req = None"
    and "newVolumeOptions env (VolumeAttributes req) = Inr opts"
    and "createMountPoint env (ns_StagingTargetPath req) = None"
    and "writeToFile env \<lparr>cc_Monitors = Monitors opts, cc_VolumeID = ns_VolumeId req\<rparr> = None"
    and "isMountPoint env (ns_StagingTargetPath req) s = Inr True"
  then show "NodeStageVolume env req s =
        (Inr (), s\<lparr>node_effects := node_effects s @
                     [CreateMountPoint (ns_StagingTargetPath req),
                      WriteToFile \<lparr>cc_Monitors = Monitors opts, cc_VolumeID = ns_VolumeId req\<rparr>]\<rparr>)"
    by (simp add: NodeStageVolume_def Let_def) (simp add: nemit_def)
next
  assume first: "NodeStageVolume env1 req1 s0 = (Inr (), s1)"
    and fresh: "mounts s0 (ns_StagingTargetPath req1) = None"
    and opts1: "newVolumeOptions env1 (VolumeAttributes req1) = Inr opts1"
    and path: "ns_StagingTargetPath req2 = ns_StagingTargetPath req1"
    and second: "validateNodeStageVolumeRequest env2 req2 = None"
      "newVolumeOptions env2 (VolumeAttributes req2) = Inr opts2"
      "createMountPoint env2 (ns_StagingTargetPath req2) = None"
      "writeToFile env2 \<lparr>cc_Monitors = Monitors opts2, cc_VolumeID = ns_VolumeId req2\<rparr> = None"
      "statMountPoint env2 (ns_StagingTargetPath req2) = None"
  from NodeStageVolume_fresh [OF first fresh opts1] obtain t where
    t: "node_effects s1 = node_effects s0 @ t" "length (filter isMount t) = 1"
      "length (filter isCacheInsert t) = 1"
      "length (filter isCreateCephUser t) = (if ProvisionVolume opts1 then 1 else 0)"
    and mnt: "mounts s1 = (mounts s0)(ns_StagingTargetPath req1 \<mapsto> ns_VolumeId req1)"
    by blast
  from mnt path second(5) have probe: "isMountPoint env2 (ns_StagingTargetPath req2) s1 = Inr True"
    by (simp add: isMountPoint_def)
  let ?s2 = "s1\<lparr>node_effects := node_effects s1 @
                [CreateMountPoint (ns_StagingTargetPath req2),
                 WriteToFile \<lparr>cc_Monitors = Monitors opts2, cc_VolumeID = ns_VolumeId req2\<rparr>]\<rparr>"
  from second probe have "NodeStageVolume env2 req2 s1 = (Inr (), ?s2)"
    by (simp add: NodeStageVolume_def Let_def) (simp add: nemit_def)
  moreover from t have
    "length (filter isMount (drop (length (node_effects s0)) (node_effects ?s2))) = 1"
    "length (filter isCacheInsert (drop (length (node_effects s0)) (node_effects ?s2))) = 1"
    "length (filter isCreateCephUser (drop (length (node_effects s0)) (node_effects ?s2)))
       = (if ProvisionVolume opts1 then 1 else 0)"
    by simp_all
  ultimately show "\<exists>s2. NodeStageVolume env2 req2 s1 = (Inr (), s2) \<and>
            nodeCache s2 = nodeCache s1 \<and> mounts s2 = mounts s1 \<and>
            length (filter isMount (drop (length (node_effects s0)) (node_effects s2))) = 1 \<and>
            length (filter isCacheInsert (drop (length (node_effects s0)) (node_effects s2))) = 1 \<and>
            length (filter isCreateCephUser (drop (length (node_effects s0)) (node_effects s2)))
              = (if ProvisionVolume opts1 then 1 else 0)"
    by simp
qed

theorem NodeStageVolume_already_mounted_witness:
  "NodeStageVolume okNode stageVol1 emptyNode = (Inr (), vol1Staged) \<and>
   NodeStageVolume okNode stageVol1 vol1Staged =
     (Inr (), vol1Staged\<lparr>node_effects := node_effects vol1Staged @
                 [CreateMountPoint ''/staging/vol-1'', WriteToFile vol1Conf]\<rparr>) \<and>
   (\<exists>s2. NodeStageVolume okNode stageVol1 vol1Staged = (Inr (), s2) \<and>
      nodeCache s2 = nodeCache vol1Staged \<and> mounts s2 = mounts vol1Staged \<and>
      length (filter isMount (drop (length (node_effects emptyNode)) (node_effects s2))) = 1 \<and>
      length (filter isCacheInsert (drop (length (node_effects emptyNode)) (node_effects s2))) = 1 \<and>
      length (filter isCreateCephUser (drop (length (node_effects emptyNode)) (node_effects s2))) = 1)"
proof -
  have pre: "validateNodeStageVolumeRequest okNode stageVol1 = None"
    "newVolumeOptions okNode (VolumeAttributes stageVol1) = Inr dynamicOptions"
    "createMountPoint okNode (ns_StagingTargetPath stageVol1) = None"
    "writeToFile okNode \<lparr>cc_Monitors = Monitors dynamicOptions,
        cc_VolumeID = ns_VolumeId stageVol1\<rparr> = None"
    "statMountPoint okNode (ns_StagingTargetPath stageVol1) = None"
    by (simp_all add: okNode_def)
  have probe: "isMountPoint okNode (ns_StagingTargetPath stageVol1) vol1Staged = Inr True"
    by (simp add: okNode_def isMountPoint_def vol1Staged_def stageVol1_def)
  have fresh: "mounts emptyNode (ns_StagingTargetPath stageVol1) = None"
    by (simp add: emptyNode_def)
  have dyn: "ProvisionVolume dynamicOptions"
    by (simp add: dynamicOptions_def)
  have args: "ns_StagingTargetPath stageVol1 = ''/staging/vol-1''"
    "\<lparr>cc_Monitors = Monitors dynamicOptions, cc_VolumeID = ns_VolumeId stageVol1\<rparr> = vol1Conf"
    by (simp_all add: stageVol1_def vol1Conf_def dynamicOptions_def)
  note inst = NodeStageVolume_already_mounted
    [where env = okNode and req = stageVol1 and opts = dynamicOptions and s = vol1Staged
       and ?env1.0 = okNode and ?req1.0 = stageVol1 and ?s0.0 = emptyNode and ?s1.0 = vol1Staged
       and ?opts1.0 = dynamicOptions and ?env2.0 = okNode and ?req2.0 = stageVol1
       and ?opts2.0 = dynamicOptions]
  from inst [THEN conjunct1] pre probe
  have again: "NodeStageVolume okNode stageVol1 vol1Staged =
     (Inr (), vol1Staged\<lparr>node_effects := node_effects vol1Staged @
                 [CreateMountPoint (ns_StagingTargetPath stageVol1),
                  WriteToFile \<lparr>cc_Monitors = Monitors dynamicOptions,
                     cc_VolumeID = ns_VolumeId stageVol1\<rparr>]\<rparr>)"
    by blast
  from inst [THEN conjunct2] NodeStageVolume_vol1 fresh pre dyn
  have both: "\<exists>s2. NodeStageVolume okNode stageVol1 vol1Staged = (Inr (), s2) \<and>
      nodeCache s2 = nodeCache vol1Staged \<and> mounts s2 = mounts vol1Staged \<and>
      length (filter isMount (drop (length (node_effects emptyNode)) (node_effects s2))) = 1 \<and>
      length (filter isCacheInsert (drop (length (node_effects emptyNode)) (node_effects s2))) = 1 \<and>
      length (filter isCreateCephUser (drop (length (node_effects emptyNode)) (node_effects s2))) = 1"
    by simp
  from again args both NodeStageVolume_vol1 show ?thesis
    by simp
qed

text \<open>
  Claim C8 says that a cache entry exists exactly while the volume is staged, and that a
  failed \<open>NodeStageVolume\<close> leaves no entry. On a node whose mounter fails, staging
  \<open>vol-1\<close> returns \<open>Internal\<close>, nothing is mounted, and the entry of \<open>vol-1\<close> is in the
  cache.
\<close>

theorem NodeStageVolume_failed_mount_leaves_entry:
  "fst (NodeStageVolume failingMount stageVol1 emptyNode) = Inl (Status Internal ''mount failed'') \<and>
   dom (mounts (snd (NodeStageVolume failingMount stageVol1 emptyNode))) = {} \<and>
   nodeCache (snd (NodeStageVolume failingMount stageVol1 emptyNode)) ''vol-1'' = Some vol1Entry"
  by (simp add: NodeStageVolume_vol1_failingMount vol1MountFailed_def)

text \<open>
  What \<open>NodeStageVolume\<close> does to the cache; that the insert comes before the user
  creation and the mount; and when the insert happens.
\<close>

lemma NodeStageVolume_cache_kept:
  assumes "NodeStageVolume env req s = (r, s')"
  shows "(\<forall>v. nodeCache s v \<noteq> None \<longrightarrow> nodeCache s' v \<noteq> None) \<and>
         (mounts s' \<noteq> mounts s \<longrightarrow>
            r = Inr () \<and>
            mounts s' = (mounts s)(ns_StagingTargetPath req \<mapsto> ns_VolumeId req) \<and>
            nodeCache s' (ns_VolumeId req) \<noteq> None) \<and>
         ((\<exists>e. CacheInsert (ns_VolumeId req) e
                  \<in> set (drop (length (node_effects s)) (node_effects s'))) \<longrightarrow>
            nodeCache s' (ns_VolumeId req) \<noteq> None)"
proof (cases "\<exists>opts. stageMount env req opts
    (nemit (WriteToFile \<lparr>cc_Monitors = Monitors opts, cc_VolumeID = ns_VolumeId req\<rparr>)
       (nemit (CreateMountPoint (ns_StagingTargetPath req)) s)) = (r, s')")
  case False
  with assms have "nodeCache s' = nodeCache s \<and> mounts s' = mounts s \<and>
      (\<exists>t. node_effects s' = node_effects s @ t \<and> filter isCacheInsert t = [])"
    by (auto simp: NodeStageVolume_def Let_def nemit_def
             split: option.splits sum.splits if_splits)
  then show ?thesis
    by (force simp: filter_empty_conv)
next
  case True
  then obtain opts where stage: "stageMount env req opts
    (nemit (WriteToFile \<lparr>cc_Monitors = Monitors opts, cc_VolumeID = ns_VolumeId req\<rparr>)
       (nemit (CreateMountPoint (ns_StagingTargetPath req)) s)) = (r, s')"
    by blast
  let ?s2 = "nemit (WriteToFile \<lparr>cc_Monitors = Monitors opts, cc_VolumeID = ns_VolumeId req\<rparr>)
       (nemit (CreateMountPoint (ns_StagingTargetPath req)) s)"
  obtain u s3 where user: "getOrCreateUser env opts (ns_VolumeId req) req ?s2 = (u, s3)"
    by (cases "getOrCreateUser env opts (ns_VolumeId req) req ?s2") auto
  note c = getOrCreateUser_cache [OF user]
  have s2: "nodeCache ?s2 = nodeCache s" "mounts ?s2 = mounts s"
    "node_effects ?s2 = node_effects s @
       [CreateMountPoint (ns_StagingTargetPath req),
        WriteToFile \<lparr>cc_Monitors = Monitors opts, cc_VolumeID = ns_VolumeId req\<rparr>]"
    by (simp_all add: nemit_def)
  from stage user have s':
    "nodeCache s' = nodeCache s3"
    "mounts s' = mounts s3 \<or>
       (r = Inr () \<and> mounts s' = (mounts s3)(ns_StagingTargetPath req \<mapsto> ns_VolumeId req)
          \<and> (\<exists>x. u = Inr x))"
    "node_effects s' = node_effects s3 \<or>
       (\<exists>cr opts'. node_effects s' = node_effects s3 @
          [Mount (ns_StagingTargetPath req) cr opts' (ns_VolumeId req)])"
    by (auto simp: stageMount_def Let_def mounted_def nemit_def
             split: sum.splits goerr.splits option.splits prod.splits)
  have keep: "\<forall>v. nodeCache s v \<noteq> None \<longrightarrow> nodeCache s' v \<noteq> None"
    using c(2,3) s2(1) s'(1) by metis
  have mount: "mounts s' \<noteq> mounts s \<longrightarrow>
            r = Inr () \<and>
            mounts s' = (mounts s)(ns_StagingTargetPath req \<mapsto> ns_VolumeId req) \<and>
            nodeCache s' (ns_VolumeId req) \<noteq> None"
  proof
    assume "mounts s' \<noteq> mounts s"
    with s'(2) c(1) s2(2) obtain x where
      m: "r = Inr ()" "mounts s' = (mounts s)(ns_StagingTargetPath req \<mapsto> ns_VolumeId req)"
      and u: "u = Inr x"
      by auto
    obtain cr opts' where "x = (cr, opts')" by (cases x)
    with user u have "getOrCreateUser env opts (ns_VolumeId req) req ?s2 = (Inr (cr, opts'), s3)"
      by simp
    from getOrCreateUser_success [OF this] s'(1) m
    show "r = Inr () \<and>
            mounts s' = (mounts s)(ns_StagingTargetPath req \<mapsto> ns_VolumeId req) \<and>
            nodeCache s' (ns_VolumeId req) \<noteq> None"
      by auto
  qed
  have ins: "(\<exists>e. CacheInsert (ns_VolumeId req) e
                  \<in> set (drop (length (node_effects s)) (node_effects s'))) \<longrightarrow>
            nodeCache s' (ns_VolumeId req) \<noteq> None"
  proof
    assume "\<exists>e. CacheInsert (ns_VolumeId req) e
                  \<in> set (drop (length (node_effects s)) (node_effects s'))"
    then obtain e where e: "CacheInsert (ns_VolumeId req) e
                  \<in> set (drop (length (node_effects s)) (node_effects s'))"
      by blast
    obtain d where d: "node_effects s3 = node_effects ?s2 @ d"
      using c(6) by (metis append_take_drop_id)
    with s2(3) have d3: "drop (length (node_effects s)) (node_effects s3) =
        [CreateMountPoint (ns_StagingTargetPath req),
         WriteToFile \<lparr>cc_Monitors = Monitors opts, cc_VolumeID = ns_VolumeId req\<rparr>] @ d"
      by simp
    from e s'(3) d s2(3) have "CacheInsert (ns_VolumeId req) e \<in> set d"
      by auto
    with d have "CacheInsert (ns_VolumeId req) e
        \<in> set (drop (length (node_effects ?s2)) (node_effects s3))"
      by simp
    from c(4) [OF this] s'(1) show "nodeCache s' (ns_VolumeId req) \<noteq> None"
      by simp
  qed
  from keep mount ins show ?thesis by blast
qed

lemma NodeStageVolume_insert_first:
  assumes "NodeStageVolume env req s = (r, s')"
  shows "\<exists>t. node_effects s' = node_effects s @ t \<and>
           (\<forall>pre x post. t = pre @ x # post \<longrightarrow> isCreateCephUser x \<or> isMount x \<longrightarrow>
              (\<exists>e. CacheInsert (ns_VolumeId req) e \<in> set pre))"
  using assms
  by (auto simp: NodeStageVolume_def stageMount_def getOrCreateUser_def storeUserCredentials_def
        cacheInsert_def mounted_def nemit_def Let_def Cons_eq_append_conv
      split: option.splits sum.splits if_splits goerr.splits prod.splits)

lemma NodeStageVolume_inserts:
  assumes "NodeStageVolume env req s = (r, s')"
    and "validateNodeStageVolumeRequest env req = None"
    and "newVolumeOptions env (VolumeAttributes req) = Inr opts"
    and "createMountPoint env (ns_StagingTargetPath req) = None"
    and "writeToFile env \<lparr>cc_Monitors = Monitors opts, cc_VolumeID = ns_VolumeId req\<rparr> = None"
    and "isMountPoint env (ns_StagingTargetPath req) s = Inr False"
    and "if ProvisionVolume opts
         then \<exists>adminCr. getAdminCredentials env (NodeStageSecrets req) = Inr adminCr \<and>
                storeCephCredentials env (ns_VolumeId req) adminCr = None
         else \<exists>userCr. getUserCredentials env (NodeStageSecrets req) = Inr userCr"
  shows "(\<exists>e. CacheInsert (ns_VolumeId req) e
             \<in> set (drop (length (node_effects s)) (node_effects s'))) \<and>
         nodeCache s' (ns_VolumeId req) \<noteq> None"
  using assms
  by (auto simp: NodeStageVolume_def stageMount_def getOrCreateUser_def storeUserCredentials_def
        cacheInsert_def mounted_def nemit_def Let_def isMountPoint_def
      split: option.splits sum.splits if_splits goerr.splits prod.splits)

text \<open>
  Claim C8, amended. A \<open>NodeStageVolume\<close> call that finds the staging path not mounted and
  obtains the credentials it needs (admin credentials fetched and stored for a
  dynamically provisioned volume, user credentials fetched otherwise) inserts the entry
  of the volume, and every user creation and every mount of a call comes after the
  insert of the entry. \<open>NodeStageVolume\<close> never removes an entry. So after a call that
  mounts the volume the call has succeeded and the entry of the volume exists; and
  whenever the call has inserted the entry, the entry exists when the call returns, also
  when the call fails afterwards (in the user creation, in storing the credentials or in
  the mount).
\<close>

theorem NodeStageVolume_entry_kept:
  assumes "NodeStageVolume env req s = (r, s')"
  shows "(\<forall>v. nodeCache s v \<noteq> None \<longrightarrow> nodeCache s' v \<noteq> None) \<and>
         (mounts s' \<noteq> mounts s \<longrightarrow>
            r = Inr () \<and>
            mounts s' = (mounts s)(ns_StagingTargetPath req \<mapsto> ns_VolumeId req) \<and>
            nodeCache s' (ns_VolumeId req) \<noteq> None) \<and>
         ((\<exists>e. CacheInsert (ns_VolumeId req) e
                  \<in> set (drop (length (node_effects s)) (node_effects s'))) \<longrightarrow>
            nodeCache s' (ns_VolumeId req) \<noteq> None) \<and>
         (\<forall>pre x post.
            drop (length (node_effects s)) (node_effects s') = pre @ x # post \<longrightarrow>
            isCreateCephUser x \<or> isMount x \<longrightarrow>
              (\<exists>e. CacheInsert (ns_VolumeId req) e \<in> set pre)) \<and>
         (validateNodeStageVolumeRequest env req = None \<longrightarrow>
          newVolumeOptions env (VolumeAttributes req) = Inr opts \<longrightarrow>
          createMountPoint env (ns_StagingTargetPath req) = None \<longrightarrow>
          writeToFile env \<lparr>cc_Monitors = Monitors opts, cc_VolumeID = ns_VolumeId req\<rparr> = None \<longrightarrow>
          isMountPoint env (ns_StagingTargetPath req) s = Inr False \<longrightarrow>
          (if ProvisionVolume opts
           then \<exists>adminCr. getAdminCredentials env (NodeStageSecrets req) = Inr adminCr \<and>
                  storeCephCredentials env (ns_VolumeId req) adminCr = None
           else \<exists>userCr. getUserCredentials env (NodeStageSecrets req) = Inr userCr) \<longrightarrow>
            (\<exists>e. CacheInsert (ns_VolumeId req) e
                    \<in> set (drop (length (node_effects s)) (node_effects s'))) \<and>
            nodeCache s' (ns_VolumeId req) \<noteq> None)"
proof -
  from NodeStageVolume_insert_first [OF assms] obtain t where
    t: "node_effects s' = node_effects s @ t"
    and first: "\<forall>pre x post. t = pre @ x # post \<longrightarrow> isCreateCephUser x \<or> isMount x \<longrightarrow>
              (\<exists>e. CacheInsert (ns_VolumeId req) e \<in> set pre)"
    by blast
  from t have "drop (length (node_effects s)) (node_effects s') = t"
    by simp
  with first have order: "\<forall>pre x post.
            drop (length (node_effects s)) (node_effects s') = pre @ x # post \<longrightarrow>
            isCreateCephUser x \<or> isMount x \<longrightarrow>
              (\<exists>e. CacheInsert (ns_VolumeId req) e \<in> set pre)"
    by simp
  have ins: "validateNodeStageVolumeRequest env req = None \<longrightarrow>
          newVolumeOptions env (VolumeAttributes req) = Inr opts \<longrightarrow>
          createMountPoint env (ns_StagingTargetPath req) = None \<longrightarrow>
          writeToFile env \<lparr>cc_Monitors = Monitors opts, cc_VolumeID = ns_VolumeId req\<rparr> = None \<longrightarrow>
          isMountPoint env (ns_StagingTargetPath req) s = Inr False \<longrightarrow>
          (if ProvisionVolume opts
           then \<exists>adminCr. getAdminCredentials env (NodeStageSecrets req) = Inr adminCr \<and>
                  storeCephCredentials env (ns_VolumeId req) adminCr = None
           else \<exists>userCr. getUserCredentials env (NodeStageSecrets req) = Inr userCr) \<longrightarrow>
            (\<exists>e. CacheInsert (ns_VolumeId req) e
                    \<in> set (drop (length (node_effects s)) (node_effects s'))) \<and>
            nodeCache s' (ns_VolumeId req) \<noteq> None"
    using NodeStageVolume_inserts [OF assms] by blast
  from NodeStageVolume_cache_kept [OF assms] order ins show ?thesis
    by blast
qed

theorem NodeStageVolume_entry_kept_witness:
  "fst (NodeStageVolume failingMount stageVol1 emptyNode) \<noteq> Inr () \<and>
   (\<exists>e. CacheInsert ''vol-1'' e \<in> set (node_effects vol1MountFailed)) \<and>
   (\<exists>e. CacheInsert ''vol-1'' e \<in> set (take 6 vol1StageEffects)) \<and>
   nodeCache vol1MountFailed ''vol-1'' \<noteq> None"
proof -
  note kept = NodeStageVolume_entry_kept
    [OF NodeStageVolume_vol1_failingMount, where opts = dynamicOptions]
  have pre: "validateNodeStageVolumeRequest failingMount stageVol1 = None"
    "newVolumeOptions failingMount (VolumeAttributes stageVol1) = Inr dynamicOptions"
    "createMountPoint failingMount (ns_StagingTargetPath stageVol1) = None"
    "writeToFile failingMount \<lparr>cc_Monitors = Monitors dynamicOptions,
        cc_VolumeID = ns_VolumeId stageVol1\<rparr> = None"
    "isMountPoint failingMount (ns_StagingTargetPath stageVol1) emptyNode = Inr False"
    "ProvisionVolume dynamicOptions"
    "getAdminCredentials failingMount (NodeStageSecrets stageVol1) = Inr adminCredentials"
    "storeCephCredentials failingMount (ns_VolumeId stageVol1) adminCredentials = None"
    by (simp_all add: failingMount_def okNode_def isMountPoint_def emptyNode_def
        dynamicOptions_def)
  have args: "ns_VolumeId stageVol1 = ''vol-1''"
    "drop (length (node_effects emptyNode)) (node_effects vol1MountFailed) = vol1StageEffects"
    by (simp_all add: stageVol1_def emptyNode_def vol1MountFailed_def)
  have split: "vol1StageEffects = take 6 vol1StageEffects @
      Mount ''/staging/vol-1'' vol1User vol1Options ''vol-1'' # []"
    by (simp add: vol1StageEffects_def)
  from kept pre have "(\<exists>e. CacheInsert (ns_VolumeId stageVol1) e
      \<in> set (drop (length (node_effects emptyNode)) (node_effects vol1MountFailed))) \<and>
      nodeCache vol1MountFailed (ns_VolumeId stageVol1) \<noteq> None"
    by auto
  with args have 1: "(\<exists>e. CacheInsert ''vol-1'' e \<in> set (node_effects vol1MountFailed)) \<and>
      nodeCache vol1MountFailed ''vol-1'' \<noteq> None"
    by (auto simp: vol1MountFailed_def)
  from kept have "\<forall>pre x post.
      drop (length (node_effects emptyNode)) (node_effects vol1MountFailed) = pre @ x # post \<longrightarrow>
      isCreateCephUser x \<or> isMount x \<longrightarrow>
        (\<exists>e. CacheInsert (ns_VolumeId stageVol1) e \<in> set pre)"
    by blast
  with args split have 2: "\<exists>e. CacheInsert ''vol-1'' e \<in> set (take 6 vol1StageEffects)"
    by (metis isMount.simps(1))
  have 3: "fst (NodeStageVolume failingMount stageVol1 emptyNode) \<noteq> Inr ()"
    by (simp add: NodeStageVolume_vol1_failingMount)
  from 1 2 3 show ?thesis by blast
qed

subsection \<open>NodeUnstageVolume\<close>

text \<open>
  Claim C7. A \<open>NodeUnstageVolume\<close> call on a dynamically provisioned volume (the request
  is valid, the unmount succeeds, the cache holds an entry for the volume whose options
  say that the volume was provisioned) in which the deletion of the dedicated user fails
  returns \<open>Internal\<close> with the error of the deletion, after it has put the popped entry
  back: the cache after the call is the cache before the call, so the entry of the volume
  is there again, and the last effect of the call is the insert of that very entry.
\<close>

theorem NodeUnstageVolume_reinserts_entry:
  assumes "validateNodeUnstageVolumeRequest env req = None"
    and "unmountVolume env (nu_StagingTargetPath req) = None"
    and "nodeCache s (nu_VolumeId req) = Some ent"
    and "ProvisionVolume (volOptions ent)"
    and "deleteCephUser env \<lparr>cr_id = cephAdminID ent, cr_key = ''''\<rparr> (nu_VolumeId req) = Some err"
  shows "\<exists>s'. NodeUnstageVolume env req s = (Inl (Status Internal err), s') \<and>
           nodeCache s' = nodeCache s \<and>
           nodeCache s' (nu_VolumeId req) = Some ent \<and>
           node_effects s' = node_effects s @
             [UnmountVolume (nu_StagingTargetPath req), OsRemove (nu_StagingTargetPath req),
              CachePop (nu_VolumeId req),
              DeleteCephUser \<lparr>cr_id = cephAdminID ent, cr_key = ''''\<rparr> (nu_VolumeId req),
              CacheInsert (nu_VolumeId req) ent]"
proof -
  from assms(3) have "(nodeCache s)(nu_VolumeId req \<mapsto> ent) = nodeCache s"
    by (rule map_upd_triv)
  with assms show ?thesis
    by (simp add: NodeUnstageVolume_def cachePop_def cacheInsert_def unmounted_def nemit_def
        Let_def)
qed

theorem NodeUnstageVolume_reinserts_entry_witness:
  "\<exists>s'. NodeUnstageVolume failingUserDelete unstageVol1 vol1Staged
          = (Inl (Status Internal ''auth del failed''), s') \<and>
        nodeCache s' ''vol-1'' = Some vol1Entry"
  using NodeUnstageVolume_reinserts_entry
    [of failingUserDelete unstageVol1 vol1Staged vol1Entry "''auth del failed''"]
  by (auto simp: failingUserDelete_def okNode_def unstageVol1_def vol1Staged_def vol1Entry_def
      vol1Options_def dynamicOptions_def)

end
